theory Spec2Isabelle
  imports Main "HOL-Library.Word"
begin

unbundle bit_operations_syntax

section \<open>Python values shared by both modules\<close>

text \<open>
  The exception classes that the two source files raise, catch or let pass.
  Every one of them is a subclass of \<^verbatim>\<open>Exception\<close>, so a handler
  \<^verbatim>\<open>except Exception\<close> catches all of them; \<^verbatim>\<open>except CacheError\<close> and
  \<^verbatim>\<open>except pickle.PickleError\<close> catch one class only. The argument is the
  message, which is what \<^verbatim>\<open>str(e)\<close> returns.
\<close>

datatype exn =
    PickleError string
  | OSError string
  | CacheError string
  | ValueError string
  | RuntimeError string
  | IndexError string
  | TypeError string
  | OtherError string

fun str_exn :: "exn \<Rightarrow> string" where
  "str_exn (PickleError m) = m"
| "str_exn (OSError m) = m"
| "str_exn (CacheError m) = m"
| "str_exn (ValueError m) = m"
| "str_exn (RuntimeError m) = m"
| "str_exn (IndexError m) = m"
| "str_exn (TypeError m) = m"
| "str_exn (OtherError m) = m"

text \<open>\<^verbatim>\<open>str(n)\<close> for a Python integer: decimal digits, with a leading minus sign.\<close>

definition digit_char :: "nat \<Rightarrow> char" where
  "digit_char d = ''0123456789'' ! d"

function str_nat :: "nat \<Rightarrow> string" where
  "str_nat n = (if n < 10 then [digit_char n] else str_nat (n div 10) @ [digit_char (n mod 10)])"
  by pat_completeness auto
termination
  by (relation "measure (\<lambda>n. n)") auto

declare str_nat.simps [simp del]

definition str_int :: "int \<Rightarrow> string" where
  "str_int i = (if i < 0 then CHR ''-'' # str_nat (nat (- i)) else str_nat (nat i))"

text \<open>\<^verbatim>\<open>sep.join(parts)\<close>.\<close>

fun join :: "string \<Rightarrow> string list \<Rightarrow> string" where
  "join sep [] = []"
| "join sep [x] = x"
| "join sep (x # y # ys) = x @ sep @ join sep (y # ys)"

section \<open>The progress table of \<^verbatim>\<open>api_progress\<close> (app.py)\<close>

text \<open>
  The dictionary literal \<^verbatim>\<open>status_percent_map\<close>, in the order of the source.
  Its keys are distinct, so looking a key up in the association list is the
  dictionary's \<^verbatim>\<open>get\<close>.
\<close>

definition status_percent_map :: "(string \<times> nat) list" where
  "status_percent_map =
    [(''starting'', 5),
     (''validating'', 10),
     (''loading_theme'', 15),
     (''fetching_data'', 20),
     (''fetching_boundary'', 25),
     (''geocoding'', 25),
     (''fetching_streets'', 35),
     (''fetching_water'', 45),
     (''fetching_parks'', 55),
     (''render_setup'', 60),
     (''render_layers_water'', 65),
     (''render_layers_parks'', 70),
     (''render_boundary'', 75),
     (''render_roads'', 85),
     (''render_gradients'', 90),
     (''render_text'', 95),
     (''render_save'', 97),
     (''completed'', 100)]"

definition percent_of :: "string \<Rightarrow> nat option" where
  "percent_of s = map_of status_percent_map s"

text \<open>
  The phase order as the specification lists it; the fourth phase is either
  \<^verbatim>\<open>geocoding\<close> or \<^verbatim>\<open>fetching_boundary\<close>, given as the argument.
\<close>

definition spec_phase_order :: "string \<Rightarrow> string list" where
  "spec_phase_order loc =
    [''starting'', ''validating'', ''loading_theme'', loc, ''fetching_data'',
     ''fetching_streets'', ''fetching_water'', ''fetching_parks'', ''render_setup'',
     ''render_layers_water'', ''render_layers_parks'', ''render_boundary'',
     ''render_roads'', ''render_gradients'', ''render_text'', ''render_save'',
     ''completed'']"

text \<open>
  A list of phases is non-decreasing when every phase has a percentage and each
  percentage is at most the next one.
\<close>

fun nondecreasing_along :: "string list \<Rightarrow> bool" where
  "nondecreasing_along (p # q # ps) =
     (case (percent_of p, percent_of q) of
        (Some a, Some b) \<Rightarrow> a \<le> b \<and> nondecreasing_along (q # ps)
      | _ \<Rightarrow> False)"
| "nondecreasing_along [p] = (percent_of p \<noteq> None)"
| "nondecreasing_along [] = True"

section \<open>The disk cache (create_map_poster.py)\<close>

text \<open>
  A fetched dataset is a street graph or a GeoDataFrame. The fetchers look at
  one thing only: whether it is empty (\<^verbatim>\<open>len(G) == 0\<close>, \<^verbatim>\<open>data.empty\<close>). It
  is modelled as the list of its elements (the nodes of a graph; the rows of a
  frame, each row given by the text of its geometry), empty when the list is.
  A Python variable holding a dataset or \<^verbatim>\<open>None\<close> is a \<open>dataset option\<close>.
\<close>

type_synonym dataset = "string list"

text \<open>
  A point is a pair \<^verbatim>\<open>(lat, lon)\<close> of floats. The fetchers do no arithmetic on
  the coordinates: they format them into the cache key and hand them to the
  provider. A coordinate is represented by the text that formatting gives
  (for instance \<^verbatim>\<open>-6.2\<close>). A tag filter is a dictionary in insertion order.
\<close>

type_synonym point = "string \<times> string"
type_synonym tags = "(string \<times> string) list"

text \<open>
  A file of the cache directory holds a pickled object, or bytes that
  \<^verbatim>\<open>pickle.load\<close> rejects (what a failed \<^verbatim>\<open>pickle.dump\<close> leaves behind, the file
  having been opened with mode \<^verbatim>\<open>wb\<close>).
\<close>

datatype disk_file = Pickled "dataset option" | Corrupt

type_synonym files = "string \<rightharpoonup> disk_file"

text \<open>
  What writing a pickle does: it succeeds, or \<^verbatim>\<open>path.open\<close> raises, or
  \<^verbatim>\<open>pickle.dump\<close> raises after the file has been opened. What the library
  raises there is a \<^verbatim>\<open>pickle.PickleError\<close>, an \<^verbatim>\<open>OSError\<close> (the storage fails;
  \<^verbatim>\<open>IOError\<close> is the same class), a \<^verbatim>\<open>TypeError\<close> (what \<^verbatim>\<open>pickle.dump\<close> raises
  on an object that has no pickle, such as one that holds a lock), or an
  exception of yet another class. \<^verbatim>\<open>CacheError\<close> is a class of this module,
  which the library does not raise.
\<close>

datatype dump_failure =
  Unpicklable string | StorageFailure string | TypeFailure string | OtherFailure string

fun raised :: "dump_failure \<Rightarrow> exn" where
  "raised (Unpicklable m) = PickleError m"
| "raised (StorageFailure m) = OSError m"
| "raised (TypeFailure m) = TypeError m"
| "raised (OtherFailure m) = OtherError m"

datatype dump_outcome = Dumped | OpenRaises dump_failure | DumpRaises dump_failure

fun failure_of :: "dump_outcome \<Rightarrow> dump_failure option" where
  "failure_of Dumped = None"
| "failure_of (OpenRaises f) = Some f"
| "failure_of (DumpRaises f) = Some f"

datatype provider_op =
  GraphFromPoint | FeaturesFromPoint | GraphFromPolygon | FeaturesFromPolygon

text \<open>
  What lies outside the two source files: the library functions, the settings
  read from the process environment and the geodata provider.
  \<^item> \<open>md5_hexdigest\<close> is \<^verbatim>\<open>md5(key.encode()).hexdigest()\<close>;
  \<^item> \<open>py_hash\<close> is the built-in \<^verbatim>\<open>hash\<close> on strings of the running process;
  \<^item> \<open>OSM_NETWORK_TYPE\<close> is the module constant of that name;
  \<^item> the four provider functions are the \<^verbatim>\<open>ox.*\<close> calls of the fetchers:
    each raises or returns a dataset (or \<^verbatim>\<open>None\<close>);
  \<^item> \<open>pickle_dump\<close> says how writing an object to a cache file ends.
\<close>

record env =
  md5_hexdigest :: "string \<Rightarrow> string"
  py_hash :: "string \<Rightarrow> int"
  OSM_NETWORK_TYPE :: string
  graph_from_point :: "point \<Rightarrow> int \<Rightarrow> string \<Rightarrow> exn + dataset option"
  features_from_point :: "point \<Rightarrow> tags \<Rightarrow> int \<Rightarrow> exn + dataset option"
  graph_from_polygon :: "string \<Rightarrow> string \<Rightarrow> exn + dataset option"
  features_from_polygon :: "string \<Rightarrow> tags \<Rightarrow> exn + dataset option"
  pickle_dump :: "string \<Rightarrow> dataset option \<Rightarrow> dump_outcome"

definition cache_file :: "env \<Rightarrow> string \<Rightarrow> string" where
  "cache_file env key = md5_hexdigest env key @ ''.pkl''"

text \<open>
  \<^verbatim>\<open>cache_get\<close>: \<^verbatim>\<open>None\<close> when the file does not exist, the unpickled object
  when it does; unpickling a corrupt file raises.
\<close>

definition cache_get :: "env \<Rightarrow> string \<Rightarrow> files \<Rightarrow> exn + dataset option" where
  "cache_get env name fs =
     (case fs (cache_file env name) of
        None \<Rightarrow> Inr None
      | Some (Pickled obj) \<Rightarrow> Inr obj
      | Some Corrupt \<Rightarrow> Inl (OtherError ''pickle.load failed''))"

text \<open>
  The two handlers of \<^verbatim>\<open>cache_set\<close>: a \<^verbatim>\<open>pickle.PickleError\<close> and an
  \<^verbatim>\<open>OSError\<close> are each turned into a \<^verbatim>\<open>CacheError\<close> with its own message; an
  exception of another class is not handled and passes through.
\<close>

definition serialization_message :: "string \<Rightarrow> string \<Rightarrow> string" where
  "serialization_message name m =
     ''Serialization error while saving cache for '' @ [CHR 0x27] @ name @ [CHR 0x27] @ '': '' @ m"

definition file_message :: "string \<Rightarrow> string \<Rightarrow> string" where
  "file_message name m =
     ''File error while saving cache for '' @ [CHR 0x27] @ name @ [CHR 0x27] @ '': '' @ m"

fun cache_set_except :: "string \<Rightarrow> exn \<Rightarrow> exn" where
  "cache_set_except name (PickleError m) = CacheError (serialization_message name m)"
| "cache_set_except name (OSError m) = CacheError (file_message name m)"
| "cache_set_except name e = e"

definition cache_set :: "env \<Rightarrow> string \<Rightarrow> dataset option \<Rightarrow> files \<Rightarrow> (exn + unit) \<times> files" where
  "cache_set env name obj fs =
     (let path = cache_file env name in
      case pickle_dump env path obj of
        Dumped \<Rightarrow> (Inr (), fs(path \<mapsto> Pickled obj))
      | OpenRaises f \<Rightarrow> (Inl (cache_set_except name (raised f)), fs)
      | DumpRaises f \<Rightarrow> (Inl (cache_set_except name (raised f)), fs(path \<mapsto> Corrupt)))"

section \<open>The fetchers (create_map_poster.py)\<close>

text \<open>
  What a fetcher does besides returning: it invokes the cache callback, calls
  the provider over the network and sleeps (milliseconds). The events are
  recorded in the order they happen. The last two kinds of event are those of
  app.py: a progress update that carries a status and a message, a client's
  request to cancel, and a call of one of the location lookups (the name of
  the function and its argument).
\<close>

datatype event =
    CacheCallback string bool
  | ProviderCall provider_op
  | Sleep nat
  | Published string string
  | CancelRequested
  | LookupCall string string

text \<open>
  The state a fetcher runs in: the files of the cache directory, the events so
  far, and the state of whoever receives the cache callback. A callback is
  given the dataset name and the hit flag; it may change the receiver's state
  and it may raise.
\<close>

record 'r world =
  files :: files
  trace :: "event list"
  sink :: 'r

type_synonym 'r callback = "string \<Rightarrow> bool \<Rightarrow> 'r \<Rightarrow> exn option \<times> 'r"

definition call_cb :: "'r callback \<Rightarrow> string \<Rightarrow> bool \<Rightarrow> 'r world \<Rightarrow> (exn + unit) \<times> 'r world" where
  "call_cb cb name hit w =
     (let (raised, r) = cb name hit (sink w);
          w' = w\<lparr>trace := trace w @ [CacheCallback name hit], sink := r\<rparr>
      in case raised of Some e \<Rightarrow> (Inl e, w') | None \<Rightarrow> (Inr (), w'))"

text \<open>
  \<^verbatim>\<open>_report_cache\<close>: nothing without a callback; with one, the call sits in
  \<^verbatim>\<open>try\<close> ... \<^verbatim>\<open>except Exception: pass\<close>.
\<close>

definition report_cache :: "'r callback option \<Rightarrow> string \<Rightarrow> bool \<Rightarrow> 'r world \<Rightarrow> 'r world" where
  "report_cache cache_cb name hit w =
     (case cache_cb of
        None \<Rightarrow> w
      | Some cb \<Rightarrow>
          (case call_cb cb name hit w of
             (Inl e, w') \<Rightarrow> w'
           | (Inr u, w') \<Rightarrow> w'))"

definition emit :: "event \<Rightarrow> 'r world \<Rightarrow> 'r world" where
  "emit ev w = w\<lparr>trace := trace w @ [ev]\<rparr>"

text \<open>
  The persist step shared by the fetchers, as each of them writes it:
  \<^verbatim>\<open>try: cache_set(key, value)\<close> / \<^verbatim>\<open>except CacheError as e: print(e)\<close> /
  \<^verbatim>\<open>return value\<close>, inside the outer \<^verbatim>\<open>try\<close> whose handler
  \<^verbatim>\<open>except Exception\<close> returns \<^verbatim>\<open>None\<close>.
\<close>

definition persist :: "env \<Rightarrow> string \<Rightarrow> dataset option \<Rightarrow> 'r world \<Rightarrow> (exn + dataset option) \<times> 'r world" where
  "persist env key val w =
     (case cache_set env key val (files w) of
        (Inr u, fs) \<Rightarrow> (Inr val, w\<lparr>files := fs\<rparr>)
      | (Inl (CacheError m), fs) \<Rightarrow> (Inr val, w\<lparr>files := fs\<rparr>)
      | (Inl e, fs) \<Rightarrow> (Inr None, w\<lparr>files := fs\<rparr>))"

definition graph_key :: "env \<Rightarrow> point \<Rightarrow> int \<Rightarrow> string" where
  "graph_key env pt dist =
     (let (lat, lon) = pt
      in ''graph_'' @ lat @ ''_'' @ lon @ ''_'' @ str_int dist @ ''_'' @ OSM_NETWORK_TYPE env)"

definition fetch_graph :: "env \<Rightarrow> point \<Rightarrow> int \<Rightarrow> 'r callback option \<Rightarrow> 'r world \<Rightarrow> (exn + dataset option) \<times> 'r world" where
  "fetch_graph env pt dist cache_cb w =
     (let graph = graph_key env pt dist in
      case cache_get env graph (files w) of
        Inl e \<Rightarrow> (Inl e, w)
      | Inr (Some cached) \<Rightarrow> (Inr (Some cached), report_cache cache_cb ''streets'' True w)
      | Inr None \<Rightarrow>
          (let w1 = report_cache cache_cb ''streets'' False w;
               w2 = emit (ProviderCall GraphFromPoint) w1
           in case graph_from_point env pt dist (OSM_NETWORK_TYPE env) of
                Inl e \<Rightarrow> (Inr None, w2)
              | Inr G \<Rightarrow>
                  if G = None \<or> G = Some [] then (Inr None, w2)
                  else persist env graph G (emit (Sleep 300) w2)))"

definition features_key :: "string \<Rightarrow> point \<Rightarrow> int \<Rightarrow> tags \<Rightarrow> string" where
  "features_key name pt dist tgs =
     (let (lat, lon) = pt;
          tag_str = join ''_'' (map fst tgs)
      in name @ ''_'' @ lat @ ''_'' @ lon @ ''_'' @ str_int dist @ ''_'' @ tag_str)"

definition fetch_features :: "env \<Rightarrow> point \<Rightarrow> int \<Rightarrow> tags \<Rightarrow> string \<Rightarrow> 'r callback option \<Rightarrow> 'r world \<Rightarrow> (exn + dataset option) \<times> 'r world" where
  "fetch_features env pt dist tgs name cache_cb w =
     (let features = features_key name pt dist tgs in
      case cache_get env features (files w) of
        Inl e \<Rightarrow> (Inl e, w)
      | Inr (Some cached) \<Rightarrow> (Inr (Some cached), report_cache cache_cb name True w)
      | Inr None \<Rightarrow>
          (let w1 = report_cache cache_cb name False w;
               w2 = emit (ProviderCall FeaturesFromPoint) w1
           in case features_from_point env pt tgs dist of
                Inl e \<Rightarrow> (Inr None, w2)
              | Inr data \<Rightarrow>
                  if data = None \<or> data = Some [] then (Inr None, w2)
                  else persist env features data (emit (Sleep 200) w2)))"

text \<open>
  \<^verbatim>\<open>boundary.geometry.iloc[0]\<close>: the first row of the frame; on an empty frame
  the index is out of bounds and pandas raises \<^verbatim>\<open>IndexError\<close>.
\<close>

definition iloc0 :: "dataset \<Rightarrow> exn + string" where
  "iloc0 boundary =
     (case boundary of
        [] \<Rightarrow> Inl (IndexError ''single positional indexer is out-of-bounds'')
      | g # rest \<Rightarrow> Inr g)"

definition graph_polygon_key :: "env \<Rightarrow> string \<Rightarrow> string" where
  "graph_polygon_key env geom =
     ''graph_polygon_'' @ str_int (py_hash env geom) @ ''_'' @ OSM_NETWORK_TYPE env"

definition fetch_graph_from_polygon :: "env \<Rightarrow> dataset \<Rightarrow> 'r callback option \<Rightarrow> 'r world \<Rightarrow> (exn + dataset option) \<times> 'r world" where
  "fetch_graph_from_polygon env boundary cache_cb w =
     (case iloc0 boundary of
        Inl e \<Rightarrow> (Inl e, w)
      | Inr geom \<Rightarrow>
          (let boundary_key = graph_polygon_key env geom in
           case cache_get env boundary_key (files w) of
             Inl e \<Rightarrow> (Inl e, w)
           | Inr (Some cached) \<Rightarrow> (Inr (Some cached), report_cache cache_cb ''streets'' True w)
           | Inr None \<Rightarrow>
               (let w1 = report_cache cache_cb ''streets'' False w;
                    w2 = emit (ProviderCall GraphFromPolygon) w1
                in case graph_from_polygon env geom (OSM_NETWORK_TYPE env) of
                     Inl e \<Rightarrow> (Inr None, w2)
                   | Inr G \<Rightarrow> persist env boundary_key G (emit (Sleep 200) w2))))"

definition features_polygon_key :: "env \<Rightarrow> string \<Rightarrow> string \<Rightarrow> tags \<Rightarrow> string" where
  "features_polygon_key env name geom tgs =
     (let tag_str = join ''_'' (map fst tgs)
      in name @ ''_polygon_'' @ str_int (py_hash env geom) @ ''_'' @ tag_str)"

definition fetch_features_from_polygon :: "env \<Rightarrow> dataset \<Rightarrow> tags \<Rightarrow> string \<Rightarrow> 'r callback option \<Rightarrow> 'r world \<Rightarrow> (exn + dataset option) \<times> 'r world" where
  "fetch_features_from_polygon env boundary tgs name cache_cb w =
     (case iloc0 boundary of
        Inl e \<Rightarrow> (Inl e, w)
      | Inr geom \<Rightarrow>
          (let boundary_key = features_polygon_key env name geom tgs in
           case cache_get env boundary_key (files w) of
             Inl e \<Rightarrow> (Inl e, w)
           | Inr (Some cached) \<Rightarrow> (Inr (Some cached), report_cache cache_cb name True w)
           | Inr None \<Rightarrow>
               (let w1 = report_cache cache_cb name False w;
                    w2 = emit (ProviderCall FeaturesFromPolygon) w1
                in case features_from_polygon env geom tgs of
                     Inl e \<Rightarrow> (Inr None, w2)
                   | Inr data \<Rightarrow> persist env boundary_key data (emit (Sleep 150) w2))))"

section \<open>Observations on a fetcher's run\<close>

text \<open>
  What a run \<open>r\<close> of a fetcher, started in the world \<open>w\<close>, added to the trace.
\<close>

definition new_events :: "'r world \<Rightarrow> (exn + dataset option) \<times> 'r world \<Rightarrow> event list" where
  "new_events w r = drop (length (trace w)) (trace (snd r))"

definition keeps_trace :: "'r world \<Rightarrow> (exn + dataset option) \<times> 'r world \<Rightarrow> bool" where
  "keeps_trace w r = (take (length (trace w)) (trace (snd r)) = trace w)"

text \<open>
  A run answered from the cache: it returns the cached value, its only event
  is one invocation of the callback with the hit flag set, the receiver is in
  the state in which that one call of the callback \<open>cb\<close> with the dataset
  name and \<^verbatim>\<open>True\<close> leaves it, and the cache directory is untouched.
\<close>

definition answered_from_cache :: "'r world \<Rightarrow> (exn + dataset option) \<times> 'r world \<Rightarrow> 'r callback \<Rightarrow> string \<Rightarrow> dataset \<Rightarrow> bool" where
  "answered_from_cache w r cb name cached =
     (fst r = Inr (Some cached) \<and> keeps_trace w r \<and>
      new_events w r = [CacheCallback name True] \<and>
      sink (snd r) = snd (cb name True (sink w)) \<and>
      files (snd r) = files w)"

text \<open>
  A run that missed the cache: its first event is the one invocation of the
  callback, with the hit flag cleared, its second the provider call, and at
  most the delay follows; the receiver is in the state in which that one call
  of the callback \<open>cb\<close> with the dataset name and \<^verbatim>\<open>False\<close> leaves it.
\<close>

definition missed_then_called :: "'r world \<Rightarrow> (exn + dataset option) \<times> 'r world \<Rightarrow> 'r callback \<Rightarrow> string \<Rightarrow> provider_op \<Rightarrow> nat \<Rightarrow> bool" where
  "missed_then_called w r cb name opn delay =
     (keeps_trace w r \<and>
      (new_events w r = [CacheCallback name False, ProviderCall opn] \<or>
       new_events w r = [CacheCallback name False, ProviderCall opn, Sleep delay]) \<and>
      sink (snd r) = snd (cb name False (sink w)))"

section \<open>An environment for the examples\<close>

text \<open>
  A provider that answers every query with a small dataset, a disk that
  stores every object, and stand-ins for the two hash functions.
\<close>

definition example_env :: env where
  "example_env =
     \<lparr>md5_hexdigest = (\<lambda>key. key),
      py_hash = (\<lambda>s. int (length s)),
      OSM_NETWORK_TYPE = ''drive'',
      graph_from_point = (\<lambda>pt dist nt. Inr (Some [''n1'', ''n2''])),
      features_from_point = (\<lambda>pt tgs dist. Inr (Some [''POLYGON ((0 0, 1 0, 1 1, 0 0))''])),
      graph_from_polygon = (\<lambda>geom nt. Inr (Some [''n1'', ''n2''])),
      features_from_polygon = (\<lambda>geom tgs. Inr (Some [''POLYGON ((0 0, 1 0, 1 1, 0 0))''])),
      pickle_dump = (\<lambda>path obj. Dumped)\<rparr>"

text \<open>A provider whose datasets hold something that has no pickle.\<close>

definition lock_env :: env where
  "lock_env =
     example_env\<lparr>pickle_dump :=
       (\<lambda>path obj. DumpRaises (TypeFailure ''cannot pickle _thread.lock object''))\<rparr>"

definition full_disk_env :: env where
  "full_disk_env =
     example_env\<lparr>pickle_dump := (\<lambda>path obj. DumpRaises (StorageFailure ''No space left on device''))\<rparr>"

definition empty_world :: "unit world" where
  "empty_world = \<lparr>files = Map.empty, trace = [], sink = ()\<rparr>"

definition silent_cb :: "unit callback" where
  "silent_cb name hit r = (None, r)"

definition raising_cb :: "unit callback" where
  "raising_cb name hit r = (Some (RuntimeError ''sink failed''), r)"

text \<open>
  A receiver that keeps the calls it has got, a callback that adds its call
  to them, and one that adds its call and then raises.
\<close>

definition noting_cb :: "(string \<times> bool) list callback" where
  "noting_cb name hit calls = (None, calls @ [(name, hit)])"

definition noting_raising_cb :: "(string \<times> bool) list callback" where
  "noting_raising_cb name hit calls = (Some (RuntimeError ''sink failed''), calls @ [(name, hit)])"

definition noting_world :: "files \<Rightarrow> (string \<times> bool) list world" where
  "noting_world fs = \<lparr>files = fs, trace = [], sink = []\<rparr>"

definition cached_world :: "unit world" where
  "cached_world =
     \<lparr>files = [cache_file example_env (graph_key example_env (''-6.2'', ''106.8'') 5000)
                 \<mapsto> Pickled (Some [''n1''])],
      trace = [], sink = ()\<rparr>"

section \<open>The progress registry (app.py)\<close>

text \<open>
  An entry of \<^verbatim>\<open>progress_status\<close> is a dictionary; a key that is absent is
  \<open>None\<close>. The same type serves for the payload of an update, which sets the
  keys it carries and leaves the others. An output is the triple of file,
  theme and format.
\<close>

record job_status =
  st_status :: "string option"
  st_message :: "string option"
  st_cancelled :: "bool option"
  st_cache_hits :: "(string \<rightharpoonup> bool) option"
  st_details :: "(string \<rightharpoonup> nat) option"
  st_started_at :: "nat option"
  st_files :: "(string \<times> string \<times> string) list option"
  st_file :: "string option option"

type_synonym registry = "string \<rightharpoonup> job_status"

definition no_fields :: job_status where
  "no_fields =
     \<lparr>st_status = None, st_message = None, st_cancelled = None, st_cache_hits = None,
      st_details = None, st_started_at = None, st_files = None, st_file = None\<rparr>"

definition pick :: "'a option \<Rightarrow> 'a option \<Rightarrow> 'a option" where
  "pick new old = (case new of None \<Rightarrow> old | Some v \<Rightarrow> Some v)"

text \<open>\<^verbatim>\<open>current.update(payload)\<close>.\<close>

definition dict_update :: "job_status \<Rightarrow> job_status \<Rightarrow> job_status" where
  "dict_update current payload =
     \<lparr>st_status = pick (st_status payload) (st_status current),
      st_message = pick (st_message payload) (st_message current),
      st_cancelled = pick (st_cancelled payload) (st_cancelled current),
      st_cache_hits = pick (st_cache_hits payload) (st_cache_hits current),
      st_details = pick (st_details payload) (st_details current),
      st_started_at = pick (st_started_at payload) (st_started_at current),
      st_files = pick (st_files payload) (st_files current),
      st_file = pick (st_file payload) (st_file current)\<rparr>"

definition update_progress :: "string \<Rightarrow> job_status \<Rightarrow> registry \<Rightarrow> registry" where
  "update_progress task_id payload progress_status =
     (let current = (case progress_status task_id of None \<Rightarrow> no_fields | Some c \<Rightarrow> c)
      in progress_status(task_id \<mapsto> dict_update current payload))"

definition is_cancelled :: "string \<Rightarrow> registry \<Rightarrow> bool" where
  "is_cancelled task_id progress_status =
     (case progress_status task_id of
        None \<Rightarrow> False
      | Some st \<Rightarrow> (case st_cancelled st of None \<Rightarrow> False | Some c \<Rightarrow> c))"

text \<open>\<^verbatim>\<open>api_cancel\<close>: the new registry and the status of the answer.\<close>

definition api_cancel :: "string \<Rightarrow> registry \<Rightarrow> registry \<times> string" where
  "api_cancel task_id progress_status =
     (if progress_status task_id \<noteq> None
      then (update_progress task_id (no_fields\<lparr>st_cancelled := Some True\<rparr>) progress_status,
            ''cancelling'')
      else (progress_status, ''not_found''))"

definition status_update :: "string \<Rightarrow> string \<Rightarrow> job_status" where
  "status_update st msg = no_fields\<lparr>st_status := Some st, st_message := Some msg\<rparr>"

section \<open>The parallel fetch round (app.py)\<close>

text \<open>
  The arguments of \<^verbatim>\<open>fetch_map_data_parallel\<close>. The boundary and the point
  may each be \<^verbatim>\<open>None\<close>.
\<close>

record round_args =
  boundary_arg :: "dataset option"
  point_arg :: "point option"
  dist_arg :: int
  task_id_arg :: string

text \<open>
  What the three nested fetchers and the callback share: the registry and the
  two local dictionaries. The registry keeps the dictionary objects
  themselves under \<^verbatim>\<open>details\<close> and \<^verbatim>\<open>cache_hits\<close>; here it keeps their value at
  the update, and every write to a dictionary is followed by that update
  within the same step.
\<close>

record round_vars =
  progress_status :: registry
  progress_steps :: "string \<rightharpoonup> nat"
  cache_hits :: "string \<rightharpoonup> bool"

text \<open>The nested function \<^verbatim>\<open>cache_cb\<close> of \<^verbatim>\<open>fetch_map_data_parallel\<close>.\<close>

definition round_cache_cb :: "string \<Rightarrow> round_vars callback" where
  "round_cache_cb task_id name hit r =
     (let hits = (if cache_hits r name \<noteq> None then (cache_hits r)(name \<mapsto> hit) else cache_hits r)
      in (None,
          r\<lparr>cache_hits := hits,
            progress_status :=
              update_progress task_id (no_fields\<lparr>st_cache_hits := Some hits\<rparr>) (progress_status r)\<rparr>))"

datatype task = Streets | Water | Parks

fun step_key :: "task \<Rightarrow> string" where
  "step_key Streets = ''fetching_streets''"
| "step_key Water = ''fetching_water''"
| "step_key Parks = ''fetching_parks''"

fun start_message :: "task \<Rightarrow> string" where
  "start_message Streets = ''Mengunduh jaringan jalan...''"
| "start_message Water = ''Mengunduh fitur air...''"
| "start_message Parks = ''Mengunduh taman dan ruang hijau...''"

definition water_tags :: tags where
  "water_tags = [(''natural'', ''water''), (''waterway'', ''riverbank'')]"

definition parks_tags :: tags where
  "parks_tags = [(''leisure'', ''park''), (''landuse'', ''grass'')]"

text \<open>
  The first statements of each nested fetcher: the write to
  \<^verbatim>\<open>progress_steps\<close> and the progress update.
\<close>

definition announce :: "round_args \<Rightarrow> task \<Rightarrow> round_vars world \<Rightarrow> round_vars world" where
  "announce args t w =
     (let r = sink w;
          steps = (progress_steps r)(step_key t \<mapsto> 10);
          payload = (status_update (step_key t) (start_message t))\<lparr>st_details := Some steps\<rparr>;
          reg = update_progress (task_id_arg args) payload (progress_status r)
      in emit (Published (step_key t) (start_message t))
           (w\<lparr>sink := r\<lparr>progress_steps := steps, progress_status := reg\<rparr>\<rparr>))"

text \<open>
  What \<^verbatim>\<open>fetch_streets\<close> does after the cancellation check. Unpacking a point
  that is \<^verbatim>\<open>None\<close> raises \<^verbatim>\<open>TypeError\<close>.
\<close>

definition streets_call :: "env \<Rightarrow> round_args \<Rightarrow> round_vars world \<Rightarrow> (exn + dataset option) \<times> round_vars world" where
  "streets_call env args w =
     (case boundary_arg args of
        Some boundary \<Rightarrow>
          fetch_graph_from_polygon env boundary (Some (round_cache_cb (task_id_arg args))) w
      | None \<Rightarrow>
          (case point_arg args of
             None \<Rightarrow> (Inl (TypeError ''cannot unpack non-iterable NoneType object''), w)
           | Some pt \<Rightarrow> fetch_graph env pt (dist_arg args) (Some (round_cache_cb (task_id_arg args))) w))"

text \<open>
  What \<^verbatim>\<open>fetch_water\<close> and \<^verbatim>\<open>fetch_parks\<close> do after the cancellation check:
  the call is inside \<^verbatim>\<open>try\<close>, and \<^verbatim>\<open>except Exception\<close> returns \<^verbatim>\<open>None\<close>.
\<close>

definition features_call :: "env \<Rightarrow> round_args \<Rightarrow> tags \<Rightarrow> string \<Rightarrow> round_vars world \<Rightarrow> (exn + dataset option) \<times> round_vars world" where
  "features_call env args tgs name w =
     (let attempt =
            (case boundary_arg args of
               Some (g # gs) \<Rightarrow>
                 fetch_features_from_polygon env (g # gs) tgs name
                   (Some (round_cache_cb (task_id_arg args))) w
             | _ \<Rightarrow>
                 (case point_arg args of
                    None \<Rightarrow> (Inl (TypeError ''cannot unpack non-iterable NoneType object''), w)
                  | Some pt \<Rightarrow>
                      fetch_features env pt (dist_arg args) tgs name
                        (Some (round_cache_cb (task_id_arg args))) w))
      in case attempt of
           (Inl e, w') \<Rightarrow> (Inr None, w')
         | (Inr v, w') \<Rightarrow> (Inr v, w'))"

fun task_call :: "env \<Rightarrow> round_args \<Rightarrow> task \<Rightarrow> round_vars world \<Rightarrow> (exn + dataset option) \<times> round_vars world" where
  "task_call env args Streets w = streets_call env args w"
| "task_call env args Water w = features_call env args water_tags ''water'' w"
| "task_call env args Parks w = features_call env args parks_tags ''parks'' w"

text \<open>
  The three fetchers run on the threads of the pool while the main thread
  waits for their futures, and a client may ask to cancel at any time. A
  fetcher is at one of four places: submitted and not yet started; past its
  progress update; past the cancellation check, with the call to the fetching
  function ahead; or its future is resolved, with a value or an exception.
\<close>

datatype task_pc = Submitted | Announced | PastCheckpoint | Resolved "exn + dataset option"

record results =
  res_G :: "dataset option"
  res_water :: "dataset option"
  res_parks :: "dataset option"

text \<open>
  The main thread waits in \<^verbatim>\<open>future.result()\<close> for one task after the other;
  an exception of a future propagates once the pool has shut down, which is
  when every task has ended; otherwise the thread leaves the \<^verbatim>\<open>with\<close> block,
  publishes the update for the whole round, validates and returns.
\<close>

datatype main_pc = Await task | Unwinding exn | Joined | Finished "exn + results"

record coordinator =
  shared :: "round_vars world"
  pc :: "task \<Rightarrow> task_pc"
  issued :: "task \<Rightarrow> nat"
  main :: main_pc
  collected :: results

fun is_provider_call :: "event \<Rightarrow> bool" where
  "is_provider_call (ProviderCall opn) = True"
| "is_provider_call ev = False"

definition worker_step :: "env \<Rightarrow> round_args \<Rightarrow> task \<Rightarrow> coordinator \<Rightarrow> coordinator" where
  "worker_step env args t c =
     (case pc c t of
        Submitted \<Rightarrow> c\<lparr>shared := announce args t (shared c), pc := (pc c)(t := Announced)\<rparr>
      | Announced \<Rightarrow>
          if is_cancelled (task_id_arg args) (progress_status (sink (shared c)))
          then c\<lparr>pc := (pc c)(t := Resolved (Inr None))\<rparr>
          else c\<lparr>pc := (pc c)(t := PastCheckpoint)\<rparr>
      | PastCheckpoint \<Rightarrow>
          (let out = task_call env args t (shared c);
               calls = length (filter is_provider_call (new_events (shared c) out))
           in c\<lparr>shared := snd out, pc := (pc c)(t := Resolved (fst out)),
                issued := (issued c)(t := issued c t + calls)\<rparr>)
      | Resolved r \<Rightarrow> c)"

fun is_resolved :: "task_pc \<Rightarrow> bool" where
  "is_resolved (Resolved r) = True"
| "is_resolved p = False"

definition all_resolved :: "coordinator \<Rightarrow> bool" where
  "all_resolved c = (is_resolved (pc c Streets) \<and> is_resolved (pc c Water) \<and> is_resolved (pc c Parks))"

fun store :: "task \<Rightarrow> dataset option \<Rightarrow> results \<Rightarrow> results" where
  "store Streets v res = res\<lparr>res_G := v\<rparr>"
| "store Water v res = res\<lparr>res_water := v\<rparr>"
| "store Parks v res = res\<lparr>res_parks := v\<rparr>"

fun next_wait :: "task \<Rightarrow> main_pc" where
  "next_wait Streets = Await Water"
| "next_wait Water = Await Parks"
| "next_wait Parks = Joined"

definition all_done_message :: string where
  "all_done_message = ''Semua data berhasil diambil''"

text \<open>
  The statements after the \<^verbatim>\<open>with\<close> block: the three steps are set to 100, the
  update for the whole round is published, and the street graph is validated.
\<close>

definition finish_round :: "round_args \<Rightarrow> coordinator \<Rightarrow> coordinator" where
  "finish_round args c =
     (let w = shared c; r = sink w;
          steps = (progress_steps r)(''fetching_streets'' \<mapsto> 100, ''fetching_water'' \<mapsto> 100,
                    ''fetching_parks'' \<mapsto> 100);
          payload = (status_update ''fetching_data'' all_done_message)\<lparr>st_details := Some steps\<rparr>;
          reg = update_progress (task_id_arg args) payload (progress_status r);
          w' = emit (Published ''fetching_data'' all_done_message)
                 (w\<lparr>sink := r\<lparr>progress_steps := steps, progress_status := reg\<rparr>\<rparr>)
      in c\<lparr>shared := w',
           main := (if res_G (collected c) = None
                    then Finished (Inl (ValueError ''Failed to fetch street network data''))
                    else Finished (Inr (collected c)))\<rparr>)"

definition main_step :: "round_args \<Rightarrow> coordinator \<Rightarrow> coordinator" where
  "main_step args c =
     (case main c of
        Await t \<Rightarrow>
          (case pc c t of
             Resolved (Inl e) \<Rightarrow> c\<lparr>main := Unwinding e\<rparr>
           | Resolved (Inr v) \<Rightarrow> c\<lparr>collected := store t v (collected c), main := next_wait t\<rparr>
           | _ \<Rightarrow> c)
      | Unwinding e \<Rightarrow> if all_resolved c then c\<lparr>main := Finished (Inl e)\<rparr> else c
      | Joined \<Rightarrow> finish_round args c
      | Finished r \<Rightarrow> c)"

definition cancel_step :: "round_args \<Rightarrow> coordinator \<Rightarrow> coordinator" where
  "cancel_step args c =
     (let w = shared c; r = sink w;
          reg = fst (api_cancel (task_id_arg args) (progress_status r))
      in c\<lparr>shared := emit CancelRequested (w\<lparr>sink := r\<lparr>progress_status := reg\<rparr>\<rparr>)\<rparr>)"

text \<open>
  A schedule says which thread takes the next step. A thread that is blocked,
  or has finished, does nothing when it is its turn.
\<close>

datatype actor = Main | Worker task | Client

fun step :: "env \<Rightarrow> round_args \<Rightarrow> actor \<Rightarrow> coordinator \<Rightarrow> coordinator" where
  "step env args Main c = main_step args c"
| "step env args (Worker t) c = worker_step env args t c"
| "step env args Client c = cancel_step args c"

fun run :: "env \<Rightarrow> round_args \<Rightarrow> actor list \<Rightarrow> coordinator \<Rightarrow> coordinator" where
  "run env args [] c = c"
| "run env args (a # sched) c = run env args sched (step env args a c)"

text \<open>
  The state in which \<^verbatim>\<open>fetch_map_data_parallel\<close> has submitted the three
  tasks: the local dictionaries are fresh, nothing has been recorded.
\<close>

definition submitted :: "registry \<Rightarrow> files \<Rightarrow> coordinator" where
  "submitted reg fs =
     \<lparr>shared =
        \<lparr>files = fs, trace = [],
         sink = \<lparr>progress_status = reg,
                 progress_steps = [''fetching_streets'' \<mapsto> 0, ''fetching_water'' \<mapsto> 0,
                                   ''fetching_parks'' \<mapsto> 0],
                 cache_hits = [''streets'' \<mapsto> False, ''water'' \<mapsto> False, ''parks'' \<mapsto> False]\<rparr>\<rparr>,
      pc = (\<lambda>t. Submitted),
      issued = (\<lambda>t. 0),
      main = Await Streets,
      collected = \<lparr>res_G = None, res_water = None, res_parks = None\<rparr>\<rparr>"

definition fetch_map_data_parallel :: "env \<Rightarrow> round_args \<Rightarrow> actor list \<Rightarrow> registry \<Rightarrow> files \<Rightarrow> coordinator" where
  "fetch_map_data_parallel env args sched reg fs = run env args sched (submitted reg fs)"

section \<open>Observations on a fetch round\<close>

text \<open>The update that the main thread publishes when the round is over.\<close>

definition all_done_update :: event where
  "all_done_update = Published ''fetching_data'' all_done_message"

text \<open>
  The events that the fetching functions of create_map_poster.py record; a run
  of one of them extends the trace by such events only.
\<close>

fun is_fetch_event :: "event \<Rightarrow> bool" where
  "is_fetch_event (CacheCallback n h) = True"
| "is_fetch_event (ProviderCall opn) = True"
| "is_fetch_event (Sleep d) = True"
| "is_fetch_event ev = False"

definition extends_by_fetch_events :: "'r world \<Rightarrow> 'r world \<Rightarrow> bool" where
  "extends_by_fetch_events w w' =
     (take (length (trace w)) (trace w') = trace w \<and>
      list_all is_fetch_event (drop (length (trace w)) (trace w')))"

text \<open>
  What holds in every state of a round: the update for the whole round is in
  the trace only when all three futures are resolved, and the main thread has
  got past a future only when that future is resolved.
\<close>

definition round_inv :: "coordinator \<Rightarrow> bool" where
  "round_inv c =
     ((all_done_update \<in> set (trace (shared c)) \<longrightarrow> all_resolved c) \<and>
      (main c = Joined \<longrightarrow> all_resolved c) \<and>
      (main c = Await Water \<longrightarrow> is_resolved (pc c Streets)) \<and>
      (main c = Await Parks \<longrightarrow> is_resolved (pc c Streets) \<and> is_resolved (pc c Water)))"

text \<open>\<^verbatim>\<open>_is_cancelled(task_id)\<close> in a state of the round.\<close>

definition cancel_seen :: "round_args \<Rightarrow> coordinator \<Rightarrow> bool" where
  "cancel_seen args c = is_cancelled (task_id_arg args) (progress_status (sink (shared c)))"


definition example_args :: round_args where
  "example_args =
     \<lparr>boundary_arg = None, point_arg = Some (''-6.2'', ''106.8''), dist_arg = 5000,
      task_id_arg = ''job''\<rparr>"

definition polygon_args :: round_args where
  "polygon_args =
     \<lparr>boundary_arg = Some [''POLYGON ((0 0, 1 0, 1 1, 0 0))''], point_arg = None,
      dist_arg = 5000, task_id_arg = ''job''\<rparr>"

text \<open>A schedule in which parks resolves first, then water, and streets last.\<close>

definition staggered :: "actor list" where
  "staggered =
     [Worker Parks, Worker Parks, Worker Parks, Main,
      Worker Water, Worker Water, Worker Water, Main,
      Worker Streets, Worker Streets, Worker Streets,
      Main, Main, Main, Main]"

text \<open>A registry in which the job has been cancelled.\<close>

definition cancelled_registry :: registry where
  "cancelled_registry = [''job'' \<mapsto> no_fields\<lparr>st_cancelled := Some True\<rparr>]"

text \<open>A provider whose street network for a polygon is empty.\<close>

definition empty_graph_env :: env where
  "empty_graph_env =
     example_env\<lparr>graph_from_polygon := (\<lambda>geom nt. Inr (Some [])),
                  graph_from_point := (\<lambda>pt dist nt. Inr (Some []))\<rparr>"


text \<open>A schedule in which the fetchers run one after the other.\<close>

definition in_order :: "actor list" where
  "in_order =
     [Worker Streets, Worker Streets, Worker Streets,
      Worker Water, Worker Water, Worker Water,
      Worker Parks, Worker Parks, Worker Parks,
      Main, Main, Main, Main]"

section \<open>Rendering one poster (create_map_poster.py)\<close>

text \<open>
  What the poster job needs from outside the fetchers: the theme files, the
  three location lookups of create_map_poster.py (each seen through what it
  returns or raises), the canvas rectangle around a point, the built-in
  \<^verbatim>\<open>float\<close> on the text of a request parameter (the text of the number, or
  the \<^verbatim>\<open>ValueError\<close> it raises on a text that is no number), the drawing
  code (which raises or not, after the progress report of the given status),
  the names of the temporary files and the clock.
\<close>

type_synonym theme = "(string \<times> string) list"

record lookups =
  get_available_themes :: "string list"
  load_theme :: "string \<Rightarrow> exn + theme option"
  fetch_subdistrict_boundary :: "string \<Rightarrow> exn + dataset option"
  fetch_city_boundary :: "string \<Rightarrow> exn + dataset option"
  get_coordinates :: "string \<Rightarrow> string \<Rightarrow> exn + point option"
  build_canvas_boundary :: "point \<Rightarrow> int \<Rightarrow> dataset option"
  float_of :: "string \<Rightarrow> exn + string"
  draw :: "string \<Rightarrow> exn option"
  temp_file :: "nat \<Rightarrow> string"
  time_now :: nat

text \<open>
  \<^verbatim>\<open>create_poster\<close> is called with a point and a radius, or with a boundary
  (and \<^verbatim>\<open>None\<close> for point and radius), or with neither.
\<close>

datatype place = AtPoint point int | InBoundary dataset | Nowhere

type_synonym 'r progress_cb = "string \<Rightarrow> string \<Rightarrow> 'r world \<Rightarrow> (exn + unit) \<times> 'r world"

text \<open>
  The nested function \<^verbatim>\<open>report\<close> of \<^verbatim>\<open>create_poster\<close>: the call of the
  progress callback sits in \<^verbatim>\<open>try\<close> ... \<^verbatim>\<open>except Exception: pass\<close>.
\<close>

definition report :: "'r progress_cb option \<Rightarrow> string \<Rightarrow> string \<Rightarrow> 'r world \<Rightarrow> 'r world" where
  "report progress_cb st msg w =
     (case progress_cb of
        None \<Rightarrow> w
      | Some cb \<Rightarrow>
          (case cb st msg w of
             (Inl e, w') \<Rightarrow> w'
           | (Inr u, w') \<Rightarrow> w'))"

text \<open>
  The rendering part of \<^verbatim>\<open>create_poster\<close>: a report, then the drawing code
  that follows it, stage after stage. The gradient and the typography are
  skipped in clean mode.
\<close>

definition render_stages :: "bool \<Rightarrow> (string \<times> string) list" where
  "render_stages clean =
     [(''render_setup'', ''Menyiapkan kanvas render...''),
      (''render_layers_water'', ''Menggambar layer air...''),
      (''render_layers_parks'', ''Menggambar layer ruang hijau...''),
      (''render_boundary'', ''Menggambar garis batas wilayah...''),
      (''render_roads'', ''Menggambar jaringan jalan...'')] @
     (if clean then []
      else [(''render_gradients'', ''Menambahkan efek gradient...''),
            (''render_text'', ''Menambahkan tipografi...'')]) @
     [(''render_save'', ''Menyimpan hasil poster...'')]"

fun draw_stages :: "lookups \<Rightarrow> 'r progress_cb option \<Rightarrow> (string \<times> string) list \<Rightarrow> 'r world \<Rightarrow> (exn + unit) \<times> 'r world" where
  "draw_stages lk progress_cb [] w = (Inr (), w)"
| "draw_stages lk progress_cb ((st, msg) # rest) w =
     (let w1 = report progress_cb st msg w
      in case draw lk st of
           Some e \<Rightarrow> (Inl e, w1)
         | None \<Rightarrow> draw_stages lk progress_cb rest w1)"

definition unpack_none :: exn where
  "unpack_none = TypeError ''cannot unpack non-iterable NoneType object''"

text \<open>
  The street fetch and a feature fetch of \<^verbatim>\<open>create_poster\<close>: from the
  boundary when there is one (the given one, or the canvas rectangle around
  the point), from the point otherwise.
\<close>

definition fetch_boundary_of :: "lookups \<Rightarrow> place \<Rightarrow> dataset option" where
  "fetch_boundary_of lk pl =
     (case pl of
        AtPoint pt dist \<Rightarrow> build_canvas_boundary lk pt dist
      | InBoundary boundary \<Rightarrow> Some boundary
      | Nowhere \<Rightarrow> None)"

definition poster_graph :: "env \<Rightarrow> lookups \<Rightarrow> place \<Rightarrow> 'r callback option \<Rightarrow> 'r world \<Rightarrow> (exn + dataset option) \<times> 'r world" where
  "poster_graph env lk pl cache_cb w =
     (case fetch_boundary_of lk pl of
        Some fetch_boundary \<Rightarrow> fetch_graph_from_polygon env fetch_boundary cache_cb w
      | None \<Rightarrow>
          (case pl of
             AtPoint pt dist \<Rightarrow> fetch_graph env pt dist cache_cb w
           | _ \<Rightarrow> (Inl unpack_none, w)))"

definition poster_features :: "env \<Rightarrow> lookups \<Rightarrow> place \<Rightarrow> tags \<Rightarrow> string \<Rightarrow> 'r callback option \<Rightarrow> 'r world \<Rightarrow> (exn + dataset option) \<times> 'r world" where
  "poster_features env lk pl tgs name cache_cb w =
     (case fetch_boundary_of lk pl of
        Some fetch_boundary \<Rightarrow> fetch_features_from_polygon env fetch_boundary tgs name cache_cb w
      | None \<Rightarrow>
          (case pl of
             AtPoint pt dist \<Rightarrow> fetch_features env pt dist tgs name cache_cb w
           | _ \<Rightarrow> (Inl unpack_none, w)))"

definition no_graph_message :: string where
  "no_graph_message =
     ''Gagal mengambil jaringan jalan (hasil kosong). Coba kurangi skala atau lokasi lain.''"

text \<open>
  \<^verbatim>\<open>create_poster\<close>. Water and parks are fetched on two threads of a pool
  while the main thread reports; here the two reports come first, then water,
  then parks. An exception of a fetcher leaves the function.
\<close>

definition create_poster :: "env \<Rightarrow> lookups \<Rightarrow> place \<Rightarrow> bool \<Rightarrow> 'r progress_cb option \<Rightarrow> 'r callback option \<Rightarrow> 'r world \<Rightarrow> (exn + unit) \<times> 'r world" where
  "create_poster env lk pl clean progress_cb cache_cb w =
     (let w1 = report progress_cb ''fetching_streets'' ''Mengunduh jaringan jalan...'' w
      in case poster_graph env lk pl cache_cb w1 of
           (Inl e, w2) \<Rightarrow> (Inl e, w2)
         | (Inr G, w2) \<Rightarrow>
             (let w3 = report progress_cb ''fetching_water'' ''Mengunduh fitur air...'' w2;
                  w4 = report progress_cb ''fetching_parks''
                         ''Mengunduh taman dan ruang hijau...'' w3
              in case poster_features env lk pl water_tags ''water'' cache_cb w4 of
                   (Inl e, w5) \<Rightarrow> (Inl e, w5)
                 | (Inr water, w5) \<Rightarrow>
                     (case poster_features env lk pl parks_tags ''parks'' cache_cb w5 of
                        (Inl e, w6) \<Rightarrow> (Inl e, w6)
                      | (Inr parks, w6) \<Rightarrow>
                          if G = None then (Inl (ValueError no_graph_message), w6)
                          else draw_stages lk progress_cb (render_stages clean) w6)))"

section \<open>The poster job (app.py)\<close>

text \<open>
  The parameters that \<^verbatim>\<open>create_poster_async\<close> reads from the request and that
  decide what the job does; a parameter that the request lacks is \<open>None\<close> (or
  the default of \<^verbatim>\<open>data.get\<close>). The parameters of the canvas (size, unit,
  resolution, quality, transparency) go to the drawing code only. Latitude
  and longitude are the texts of the numbers.
\<close>

record request =
  kota :: "string option"
  negara :: "string option"
  kecamatan :: "string option"
  use_coordinates :: bool
  latitude :: "string option"
  longitude :: "string option"
  custom_city :: string
  custom_country :: string
  tema :: string
  custom_theme :: "theme option"
  skala :: int
  format_output :: string
  use_delineation :: bool
  clean :: bool
  all_themes :: bool

text \<open>The truth value of a string or \<^verbatim>\<open>None\<close>; \<^verbatim>\<open>a or b\<close>; the text of a value in an f-string.\<close>

definition truthy :: "string option \<Rightarrow> bool" where
  "truthy v = (case v of None \<Rightarrow> False | Some s \<Rightarrow> s \<noteq> [])"

definition or_else :: "string \<Rightarrow> string \<Rightarrow> string" where
  "or_else a b = (if a = [] then b else a)"

definition fmt :: "string option \<Rightarrow> string" where
  "fmt v = (case v of None \<Rightarrow> ''None'' | Some s \<Rightarrow> s)"

record location =
  loc_boundary :: "dataset option"
  loc_coords :: "point option"
  location_name :: string
  location_country :: string

text \<open>
  How a part of the job ends: an exception propagates, the function has
  returned (after writing an error status), or the job goes on.
\<close>

datatype 'a flow = Raise exn | Return | Go 'a

text \<open>An \<^verbatim>\<open>_update_progress\<close> that carries a status and a message.\<close>

definition publish :: "string \<Rightarrow> string \<Rightarrow> string \<Rightarrow> registry world \<Rightarrow> registry world" where
  "publish task_id st msg w =
     emit (Published st msg) (w\<lparr>sink := update_progress task_id (status_update st msg) (sink w)\<rparr>)"

definition quoted :: "string \<Rightarrow> string" where
  "quoted s = [CHR 0x22] @ s @ [CHR 0x22]"

text \<open>
  The two validations of \<^verbatim>\<open>create_poster_async\<close>: the message of the error
  status, or \<open>None\<close> when the request passes.
\<close>

definition validate :: "lookups \<Rightarrow> request \<Rightarrow> string option" where
  "validate lk r =
     (if tema r \<noteq> ''custom'' \<and> tema r \<notin> set (get_available_themes lk)
      then Some (''Tema '' @ quoted (tema r) @ '' tidak ditemukan'')
      else if use_coordinates r
      then (if latitude r = None \<or> longitude r = None
            then Some ''Latitude dan longitude wajib diisi''
            else None)
      else if \<not> truthy (kecamatan r) \<and> \<not> truthy (negara r)
      then Some ''Isi kecamatan, atau kota + negara, atau negara saja''
      else None)"

definition float_none :: exn where
  "float_none = TypeError ''float() argument must be a string or a real number''"

text \<open>
  \<^verbatim>\<open>float(x)\<close> for a request parameter: \<^verbatim>\<open>TypeError\<close> on \<^verbatim>\<open>None\<close>, and on a
  text what the built-in gives.
\<close>

definition to_float :: "lookups \<Rightarrow> string option \<Rightarrow> exn + string" where
  "to_float lk v = (case v of None \<Rightarrow> Inl float_none | Some text \<Rightarrow> float_of lk text)"

definition lower_none :: exn where
  "lower_none = OtherError ''NoneType object has no attribute lower''"

text \<open>
  The chain \<^verbatim>\<open>if use_coordinates\<close> / \<^verbatim>\<open>elif kecamatan\<close> /
  \<^verbatim>\<open>elif use_delineation and kota and negara\<close> / \<^verbatim>\<open>elif not kota and negara\<close> /
  \<^verbatim>\<open>else\<close> of \<^verbatim>\<open>create_poster_async\<close>. In the first branch the tuple
  \<^verbatim>\<open>(float(latitude), float(longitude))\<close> is evaluated from left to right.
\<close>

definition resolve_location :: "lookups \<Rightarrow> string \<Rightarrow> request \<Rightarrow> registry world \<Rightarrow> location flow \<times> registry world" where
  "resolve_location lk task_id r w =
     (if use_coordinates r then
        (case to_float lk (latitude r) of
           Inl e \<Rightarrow> (Raise e, w)
         | Inr lat \<Rightarrow>
             (case to_float lk (longitude r) of
                Inl e \<Rightarrow> (Raise e, w)
              | Inr lon \<Rightarrow>
                  (Go \<lparr>loc_boundary = None, loc_coords = Some (lat, lon),
                       location_name = or_else (custom_city r) ''Lokasi Kustom'',
                       location_country = or_else (custom_country r) ''''\<rparr>, w)))
      else if truthy (kecamatan r) then
        (let w1 = publish task_id ''fetching_boundary''
                    (''Mengambil batas untuk kecamatan: '' @ fmt (kecamatan r)) w;
             w2 = emit (LookupCall ''fetch_subdistrict_boundary'' (fmt (kecamatan r))) w1
         in case fetch_subdistrict_boundary lk (fmt (kecamatan r)) of
              Inl e \<Rightarrow> (Raise e, w2)
            | Inr boundary \<Rightarrow>
                if boundary = None \<or> boundary = Some []
                then (Return, publish task_id ''error''
                        (''Tidak dapat mengambil batas kecamatan. '' @
                         ''Pastikan nama kecamatan lengkap dengan kota dan negara.'') w2)
                else (Go \<lparr>loc_boundary = boundary, loc_coords = None,
                          location_name = fmt (kecamatan r), location_country = ''''\<rparr>, w2))
      else if use_delineation r \<and> truthy (kota r) \<and> truthy (negara r) then
        (let query = fmt (kota r) @ '', '' @ fmt (negara r);
             w1 = publish task_id ''fetching_boundary'' (''Mengambil batas untuk '' @ query) w;
             w2 = emit (LookupCall ''fetch_city_boundary'' query) w1
         in case fetch_city_boundary lk query of
              Inl e \<Rightarrow> (Raise e, w2)
            | Inr boundary \<Rightarrow>
                if boundary = None \<or> boundary = Some []
                then (Return, publish task_id ''error''
                        (''Tidak dapat menemukan batas untuk '' @ query @
                         ''. Coba gunakan radius biasa.'') w2)
                else (Go \<lparr>loc_boundary = boundary, loc_coords = None,
                          location_name = query, location_country = fmt (negara r)\<rparr>, w2))
      else if \<not> truthy (kota r) \<and> truthy (negara r) then
        (let w1 = publish task_id ''fetching_boundary''
                    (''Mengambil batas untuk '' @ fmt (negara r)) w;
             w2 = emit (LookupCall ''fetch_city_boundary'' (fmt (negara r))) w1
         in case fetch_city_boundary lk (fmt (negara r)) of
              Inl e \<Rightarrow> (Raise e, w2)
            | Inr boundary \<Rightarrow>
                if boundary = None \<or> boundary = Some []
                then (Return, publish task_id ''error''
                        (''Tidak dapat menemukan batas untuk '' @ fmt (negara r) @ ''.'') w2)
                else (Go \<lparr>loc_boundary = boundary, loc_coords = None,
                          location_name = fmt (negara r),
                          location_country = fmt (negara r)\<rparr>, w2))
      else
        (let query = fmt (kota r) @ '', '' @ fmt (negara r);
             w1 = publish task_id ''geocoding'' (''Mencari koordinat untuk '' @ query) w;
             w2 = emit (LookupCall ''get_coordinates'' query) w1
         in case (kota r, negara r) of
              (Some city, Some country) \<Rightarrow>
                (case get_coordinates lk city country of
                   Inl e \<Rightarrow> (Raise e, w2)
                 | Inr None \<Rightarrow>
                     (Return, publish task_id ''error''
                        (''Tidak dapat menemukan koordinat untuk '' @ query @
                         ''. Pastikan nama kota dan negara benar.'') w2)
                 | Inr (Some coords) \<Rightarrow>
                     (Go \<lparr>loc_boundary = None, loc_coords = Some coords,
                          location_name = query, location_country = country\<rparr>, w2))
            | _ \<Rightarrow> (Raise lower_none, w2)))"

text \<open>
  The nested functions \<^verbatim>\<open>report\<close> and \<^verbatim>\<open>cache_cb\<close> of
  \<^verbatim>\<open>create_poster_async\<close>, which it hands to \<^verbatim>\<open>create_poster\<close>.
\<close>

definition job_report :: "string \<Rightarrow> registry progress_cb" where
  "job_report task_id st msg w =
     (if is_cancelled task_id (sink w) then (Inl (RuntimeError ''cancelled''), w)
      else (Inr (), publish task_id st msg w))"

definition job_cache_cb :: "string \<Rightarrow> registry callback" where
  "job_cache_cb task_id name hit reg =
     (let hits = (case reg task_id of
                    None \<Rightarrow> Map.empty
                  | Some st \<Rightarrow> (case st_cache_hits st of None \<Rightarrow> Map.empty | Some h \<Rightarrow> h))
      in (None, update_progress task_id (no_fields\<lparr>st_cache_hits := Some (hits(name \<mapsto> hit))\<rparr>) reg))"

definition place_of :: "request \<Rightarrow> location \<Rightarrow> place" where
  "place_of r loc =
     (case loc_boundary loc of
        Some (g # gs) \<Rightarrow> InBoundary (g # gs)
      | _ \<Rightarrow> (case loc_coords loc of Some pt \<Rightarrow> AtPoint pt (skala r) | None \<Rightarrow> Nowhere))"

text \<open>
  The loop over the themes inside the \<^verbatim>\<open>try\<close> block: it ends normally with
  the outputs, or by the \<^verbatim>\<open>return\<close> after a theme that could not be loaded,
  or with an exception; \<^verbatim>\<open>output_file\<close> is what the handler then finds.
\<close>

datatype loop_end =
    LoopDone "(string \<times> string \<times> string) list" "string option"
  | LoopReturn
  | LoopRaise exn "string option"

fun render_themes :: "env \<Rightarrow> lookups \<Rightarrow> string \<Rightarrow> request \<Rightarrow> place \<Rightarrow> string list \<Rightarrow> (string \<times> string \<times> string) list \<Rightarrow> string option \<Rightarrow> registry world \<Rightarrow> loop_end \<times> registry world" where
  "render_themes env lk task_id r pl [] output_files output_file w =
     (LoopDone output_files output_file, w)"
| "render_themes env lk task_id r pl (theme_name # rest) output_files output_file w =
     (case (if theme_name = ''custom'' then Inr (custom_theme r) else load_theme lk theme_name) of
        Inl e \<Rightarrow> (LoopRaise e output_file, w)
      | Inr None \<Rightarrow>
          (LoopReturn,
           publish task_id ''error'' (''Gagal memuat tema '' @ quoted theme_name) w)
      | Inr (Some theme_data) \<Rightarrow>
          (let tmp = temp_file lk (length output_files)
           in case create_poster env lk pl (clean r) (Some (job_report task_id))
                     (Some (job_cache_cb task_id)) w of
                (Inl e, w') \<Rightarrow> (LoopRaise e (Some tmp), w')
              | (Inr u, w') \<Rightarrow>
                  render_themes env lk task_id r pl rest
                    (output_files @ [(tmp, theme_name, format_output r)]) (Some tmp) w'))"

definition cancelled_message :: string where
  "cancelled_message = ''Dibatalkan oleh pengguna''"

text \<open>The messages of the inner and of the outer handler.\<close>

definition inner_message :: "exn \<Rightarrow> string" where
  "inner_message e =
     (if str_exn e = ''cancelled'' then cancelled_message
      else ''Error saat membuat poster: '' @ str_exn e)"

definition outer_message :: "exn \<Rightarrow> string" where
  "outer_message e =
     (if str_exn e = ''cancelled'' then cancelled_message
      else ''Error tidak terduga: '' @ str_exn e)"

definition exists_none :: exn where
  "exists_none = TypeError ''stat: path should be string, bytes, os.PathLike or integer, not NoneType''"

definition theme_list_of :: "lookups \<Rightarrow> request \<Rightarrow> string list" where
  "theme_list_of lk r =
     (if tema r = ''custom'' then [''custom'']
      else if all_themes r then get_available_themes lk
      else [tema r])"

text \<open>
  The second half of \<^verbatim>\<open>create_poster_async\<close>, from the update
  \<^verbatim>\<open>fetching_data\<close> on: the \<^verbatim>\<open>try\<close> block with its handler. In the handler
  \<^verbatim>\<open>os.path.exists(output_file)\<close> raises when no file has been named yet, and
  that exception reaches the outer handler.
\<close>

definition render_job :: "env \<Rightarrow> lookups \<Rightarrow> string \<Rightarrow> request \<Rightarrow> location \<Rightarrow> registry world \<Rightarrow> registry world" where
  "render_job env lk task_id r loc w =
     (let w1 = publish task_id ''fetching_data'' ''Mengunduh data peta...'' w
      in case render_themes env lk task_id r (place_of r loc) (theme_list_of lk r) [] None w1 of
           (LoopDone output_files output_file, w2) \<Rightarrow>
             emit (Published ''completed'' ''Poster berhasil dibuat!'')
               (w2\<lparr>sink :=
                  update_progress task_id
                    (if output_files \<noteq> []
                     then (status_update ''completed'' ''Poster berhasil dibuat!'')
                            \<lparr>st_files := Some output_files\<rparr>
                     else (status_update ''completed'' ''Poster berhasil dibuat!'')
                            \<lparr>st_file := Some output_file\<rparr>)
                    (sink w2)\<rparr>)
         | (LoopReturn, w2) \<Rightarrow> w2
         | (LoopRaise e None, w2) \<Rightarrow> publish task_id ''error'' (outer_message exists_none) w2
         | (LoopRaise e (Some tmp), w2) \<Rightarrow> publish task_id ''error'' (inner_message e) w2)"

text \<open>
  The first half of \<^verbatim>\<open>create_poster_async\<close>: the first update, the
  validations and the location.
\<close>

definition prepare_job :: "lookups \<Rightarrow> string \<Rightarrow> request \<Rightarrow> registry world \<Rightarrow> location flow \<times> registry world" where
  "prepare_job lk task_id r w =
     (let start = (status_update ''starting'' ''Memulai pembuatan poster...'')
                    \<lparr>st_started_at := Some (time_now lk), st_cancelled := Some False,
                     st_cache_hits := Some Map.empty\<rparr>;
          w1 = emit (Published ''starting'' ''Memulai pembuatan poster...'')
                 (w\<lparr>sink := update_progress task_id start (sink w)\<rparr>);
          w2 = publish task_id ''validating'' ''Memvalidasi input...'' w1
      in case validate lk r of
           Some msg \<Rightarrow> (Return, publish task_id ''error'' msg w2)
         | None \<Rightarrow>
             resolve_location lk task_id r
               (publish task_id ''loading_theme'' ''Memuat tema...'' w2))"

text \<open>
  \<^verbatim>\<open>create_poster_async\<close>. Between the two halves the requests of clients
  are served by other threads: \<open>between\<close> is what they do to the registry
  (nothing, or \<^verbatim>\<open>api_cancel\<close>).
\<close>

definition create_poster_async :: "env \<Rightarrow> lookups \<Rightarrow> (registry \<Rightarrow> registry) \<Rightarrow> string \<Rightarrow> request \<Rightarrow> registry world \<Rightarrow> registry world" where
  "create_poster_async env lk between task_id r w =
     (case prepare_job lk task_id r w of
        (Raise e, w') \<Rightarrow> publish task_id ''error'' (outer_message e) w'
      | (Return, w') \<Rightarrow> w'
      | (Go loc, w') \<Rightarrow> render_job env lk task_id r loc (w'\<lparr>sink := between (sink w')\<rparr>))"

section \<open>The precedence of the location modes, as specified\<close>

text \<open>
  The five modes in the order of precedence of the specification, each with
  the condition under which the request satisfies it; the mode of a request
  is the first one that it satisfies.
\<close>

datatype mode =
  ExplicitCoordinates | SubdistrictName | CityBoundaryDelineation | CountryOnly
  | CityCountryGeocoding

definition spec_rules :: "(mode \<times> (request \<Rightarrow> bool)) list" where
  "spec_rules =
     [(ExplicitCoordinates, \<lambda>r. use_coordinates r),
      (SubdistrictName, \<lambda>r. truthy (kecamatan r)),
      (CityBoundaryDelineation, \<lambda>r. use_delineation r \<and> truthy (kota r) \<and> truthy (negara r)),
      (CountryOnly, \<lambda>r. truthy (negara r) \<and> \<not> truthy (kota r)),
      (CityCountryGeocoding, \<lambda>r. truthy (kota r) \<and> truthy (negara r))]"

fun first_satisfied :: "(mode \<times> (request \<Rightarrow> bool)) list \<Rightarrow> request \<Rightarrow> mode option" where
  "first_satisfied [] r = None"
| "first_satisfied ((m, sat) # rules) r = (if sat r then Some m else first_satisfied rules r)"

definition spec_mode :: "request \<Rightarrow> mode option" where
  "spec_mode r = first_satisfied spec_rules r"

text \<open>
  The lookup that each mode calls, with its argument; explicit coordinates
  call none.
\<close>

fun is_lookup :: "event \<Rightarrow> bool" where
  "is_lookup (LookupCall f x) = True"
| "is_lookup ev = False"

definition lookups_made :: "registry world \<Rightarrow> location flow \<times> registry world \<Rightarrow> event list" where
  "lookups_made w out = filter is_lookup (drop (length (trace w)) (trace (snd out)))"

fun expected_lookups :: "request \<Rightarrow> mode \<Rightarrow> event list" where
  "expected_lookups r ExplicitCoordinates = []"
| "expected_lookups r SubdistrictName =
     [LookupCall ''fetch_subdistrict_boundary'' (fmt (kecamatan r))]"
| "expected_lookups r CityBoundaryDelineation =
     [LookupCall ''fetch_city_boundary'' (fmt (kota r) @ '', '' @ fmt (negara r))]"
| "expected_lookups r CountryOnly = [LookupCall ''fetch_city_boundary'' (fmt (negara r))]"
| "expected_lookups r CityCountryGeocoding =
     [LookupCall ''get_coordinates'' (fmt (kota r) @ '', '' @ fmt (negara r))]"

text \<open>
  What each mode gives: for explicit coordinates the point of the request,
  converted; for a boundary mode the boundary that the lookup answers, and
  the job halts when the answer is absent or empty; for geocoding the point
  that the geocoder answers, and the job halts when there is none. An
  exception of the conversion or of the lookup propagates.
\<close>

definition boundary_outcome :: "exn + dataset option \<Rightarrow> string \<Rightarrow> string \<Rightarrow> location flow" where
  "boundary_outcome answer name country =
     (case answer of
        Inl e \<Rightarrow> Raise e
      | Inr boundary \<Rightarrow>
          if boundary = None \<or> boundary = Some [] then Return
          else Go \<lparr>loc_boundary = boundary, loc_coords = None,
                   location_name = name, location_country = country\<rparr>)"

fun expected_outcome :: "lookups \<Rightarrow> request \<Rightarrow> mode \<Rightarrow> location flow" where
  "expected_outcome lk r ExplicitCoordinates =
     (case to_float lk (latitude r) of
        Inl e \<Rightarrow> Raise e
      | Inr lat \<Rightarrow>
          (case to_float lk (longitude r) of
             Inl e \<Rightarrow> Raise e
           | Inr lon \<Rightarrow>
               Go \<lparr>loc_boundary = None, loc_coords = Some (lat, lon),
                   location_name = or_else (custom_city r) ''Lokasi Kustom'',
                   location_country = or_else (custom_country r) ''''\<rparr>))"
| "expected_outcome lk r SubdistrictName =
     boundary_outcome (fetch_subdistrict_boundary lk (fmt (kecamatan r)))
       (fmt (kecamatan r)) ''''"
| "expected_outcome lk r CityBoundaryDelineation =
     boundary_outcome (fetch_city_boundary lk (fmt (kota r) @ '', '' @ fmt (negara r)))
       (fmt (kota r) @ '', '' @ fmt (negara r)) (fmt (negara r))"
| "expected_outcome lk r CountryOnly =
     boundary_outcome (fetch_city_boundary lk (fmt (negara r))) (fmt (negara r)) (fmt (negara r))"
| "expected_outcome lk r CityCountryGeocoding =
     (case (kota r, negara r) of
        (Some city, Some country) \<Rightarrow>
          (case get_coordinates lk city country of
             Inl e \<Rightarrow> Raise e
           | Inr None \<Rightarrow> Return
           | Inr (Some coords) \<Rightarrow>
               Go \<lparr>loc_boundary = None, loc_coords = Some coords,
                   location_name = fmt (kota r) @ '', '' @ fmt (negara r),
                   location_country = country\<rparr>)
      | _ \<Rightarrow> Raise lower_none)"

text \<open>
  A run has halted with an error status when the last thing it did was to
  publish the status \<^verbatim>\<open>error\<close>, and the registry shows that status.
\<close>

fun is_error_update :: "event \<Rightarrow> bool" where
  "is_error_update (Published st msg) = (st = ''error'')"
| "is_error_update ev = False"

definition shows_status :: "registry \<Rightarrow> string \<Rightarrow> string \<Rightarrow> bool" where
  "shows_status reg task_id st =
     (case reg task_id of None \<Rightarrow> False | Some entry \<Rightarrow> st_status entry = Some st)"

definition halted_with_error :: "string \<Rightarrow> registry world \<Rightarrow> location flow \<times> registry world \<Rightarrow> bool" where
  "halted_with_error task_id w out =
     (case rev (drop (length (trace w)) (trace (snd out))) of
        [] \<Rightarrow> False
      | ev # evs \<Rightarrow> is_error_update ev \<and> shows_status (sink (snd out)) task_id ''error'')"

text \<open>
  A run of the resolution is a resolution in the mode \<open>m\<close> when it made the
  lookup calls of that mode and no others, ended as that mode ends on the
  answer of its lookup, and halted with an error status exactly when it
  ended by returning.
\<close>

definition resolved_in :: "mode \<Rightarrow> lookups \<Rightarrow> string \<Rightarrow> request \<Rightarrow> registry world \<Rightarrow> location flow \<times> registry world \<Rightarrow> bool" where
  "resolved_in m lk task_id r w out =
     (lookups_made w out = expected_lookups r m \<and>
      fst out = expected_outcome lk r m \<and>
      (fst out = Return) = halted_with_error task_id w out)"

section \<open>Observations on the poster job\<close>

text \<open>
  The common shape of the three boundary branches of \<^verbatim>\<open>resolve_location\<close>,
  and the geocoding branch, each after its progress update and lookup call.
\<close>

definition boundary_answer :: "string \<Rightarrow> string \<Rightarrow> string \<Rightarrow> string \<Rightarrow> exn + dataset option \<Rightarrow> registry world \<Rightarrow> location flow \<times> registry world" where
  "boundary_answer task_id failure name country answer w =
     (case answer of
        Inl e \<Rightarrow> (Raise e, w)
      | Inr boundary \<Rightarrow>
          if boundary = None \<or> boundary = Some []
          then (Return, publish task_id ''error'' failure w)
          else (Go \<lparr>loc_boundary = boundary, loc_coords = None,
                    location_name = name, location_country = country\<rparr>, w))"

definition geocoding_answer :: "lookups \<Rightarrow> string \<Rightarrow> request \<Rightarrow> registry world \<Rightarrow> location flow \<times> registry world" where
  "geocoding_answer lk task_id r w2 =
     (case (kota r, negara r) of
        (Some city, Some country) \<Rightarrow>
          (case get_coordinates lk city country of
             Inl e \<Rightarrow> (Raise e, w2)
           | Inr None \<Rightarrow>
               (Return, publish task_id ''error''
                  (''Tidak dapat menemukan koordinat untuk '' @
                   (fmt (kota r) @ '', '' @ fmt (negara r)) @
                   ''. Pastikan nama kota dan negara benar.'') w2)
           | Inr (Some coords) \<Rightarrow>
               (Go \<lparr>loc_boundary = None, loc_coords = Some coords,
                    location_name = fmt (kota r) @ '', '' @ fmt (negara r),
                    location_country = country\<rparr>, w2))
      | _ \<Rightarrow> (Raise lower_none, w2))"

text \<open>Lookups, requests and a client for the examples.\<close>

definition example_lookups :: lookups where
  "example_lookups =
     \<lparr>get_available_themes = [''feature_based'', ''noir''],
      load_theme = (\<lambda>name. Inr (Some [(''name'', name)])),
      fetch_subdistrict_boundary = (\<lambda>name. Inr (Some [''POLYGON ((0 0, 1 0, 1 1, 0 0))''])),
      fetch_city_boundary = (\<lambda>name. Inr (Some [''POLYGON ((0 0, 1 0, 1 1, 0 0))''])),
      get_coordinates = (\<lambda>city country. Inr (Some (''-6.2'', ''106.8''))),
      build_canvas_boundary = (\<lambda>pt dist. Some [''POLYGON ((0 0, 1 0, 1 1, 0 0))'']),
      float_of = (\<lambda>text. if text = ''-6.2'' \<or> text = ''106.8'' then Inr text
                         else Inl (ValueError (''could not convert string to float: '' @ text))),
      draw = (\<lambda>st. None),
      temp_file = (\<lambda>n. ''tmp'' @ str_int (int n) @ ''.png''),
      time_now = 0\<rparr>"

definition city_request :: request where
  "city_request =
     \<lparr>kota = Some ''Jakarta'', negara = Some ''Indonesia'', kecamatan = None,
      use_coordinates = False, latitude = None, longitude = None,
      custom_city = '''', custom_country = '''', tema = ''noir'', custom_theme = None,
      skala = 5000, format_output = ''png'', use_delineation = False, clean = False,
      all_themes = False\<rparr>"

definition ambiguous_request :: request where
  "ambiguous_request =
     city_request\<lparr>kecamatan := Some ''Menteng, Jakarta Pusat, Indonesia'',
                   use_coordinates := True, latitude := Some ''-6.2'', longitude := Some ''106.8'',
                   use_delineation := True\<rparr>"

definition job_world :: "registry world" where
  "job_world = \<lparr>files = Map.empty, trace = [], sink = Map.empty\<rparr>"

definition cancel_job :: "registry \<Rightarrow> registry" where
  "cancel_job reg = fst (api_cancel ''job'' reg)"

section \<open>The built-in hash of strings\<close>

text \<open>
  \<^verbatim>\<open>hash(s)\<close> of CPython 3.11 on a string of ASCII characters is SipHash-1-3
  over the bytes of the string, keyed by the two 64-bit words of a secret that
  the interpreter draws when it starts: at random, unless the environment
  variable \<^verbatim>\<open>PYTHONHASHSEED\<close> fixes it. The result is read as a signed 64-bit
  number, with \<^verbatim>\<open>-1\<close> replaced by \<^verbatim>\<open>-2\<close>; the empty string hashes to 0.
  The 64-bit words are natural numbers, with the wrap-around written out.
\<close>

definition u64 :: "nat \<Rightarrow> nat" where
  "u64 x = x mod 2 ^ 64"

definition rotl64 :: "nat \<Rightarrow> nat \<Rightarrow> nat" where
  "rotl64 x s = u64 (x * 2 ^ s) OR x div 2 ^ (64 - s)"

type_synonym sipstate = "nat \<times> nat \<times> nat \<times> nat"

definition half_round :: "nat \<Rightarrow> nat \<Rightarrow> nat \<Rightarrow> nat \<Rightarrow> nat \<Rightarrow> nat \<Rightarrow> sipstate" where
  "half_round a b c d s t =
     (let a1 = u64 (a + b); c1 = u64 (c + d);
          b1 = rotl64 b s XOR a1;
          d1 = rotl64 d t XOR c1
      in (rotl64 a1 32, b1, c1, d1))"

definition single_round :: "sipstate \<Rightarrow> sipstate" where
  "single_round v =
     (case v of (v0, v1, v2, v3) \<Rightarrow>
        (case half_round v0 v1 v2 v3 13 16 of (v0, v1, v2, v3) \<Rightarrow>
           (case half_round v2 v1 v0 v3 17 21 of (v2, v1, v0, v3) \<Rightarrow> (v0, v1, v2, v3))))"

fun le64 :: "string \<Rightarrow> nat" where
  "le64 [] = 0"
| "le64 (c # cs) = of_char c + 256 * le64 cs"

definition absorb_word :: "nat \<Rightarrow> sipstate \<Rightarrow> sipstate" where
  "absorb_word mi v =
     (case v of (v0, v1, v2, v3) \<Rightarrow>
        (case single_round (v0, v1, v2, v3 XOR mi) of (v0, v1, v2, v3) \<Rightarrow>
           (v0 XOR mi, v1, v2, v3)))"

function absorb :: "sipstate \<Rightarrow> string \<Rightarrow> sipstate \<times> string" where
  "absorb v src =
     (if 8 \<le> length src then absorb (absorb_word (le64 (take 8 src)) v) (drop 8 src)
      else (v, src))"
  by pat_completeness auto
termination
  by (relation "measure (\<lambda>(v, src). length src)") auto

declare absorb.simps [simp del]

definition siphash13 :: "nat \<Rightarrow> nat \<Rightarrow> string \<Rightarrow> nat" where
  "siphash13 k0 k1 src =
     (let b = u64 (length src * 2 ^ 56);
          v = (k0 XOR 0x736f6d6570736575, k1 XOR 0x646f72616e646f6d,
               k0 XOR 0x6c7967656e657261, k1 XOR 0x7465646279746573)
      in case absorb v src of (v, rest) \<Rightarrow>
           (case absorb_word (b OR le64 rest) v of (v0, v1, v2, v3) \<Rightarrow>
              (case single_round (single_round (single_round (v0, v1, v2 XOR 0xff, v3))) of
                 (v0, v1, v2, v3) \<Rightarrow> (v0 XOR v1) XOR (v2 XOR v3))))"

definition py_ssize :: "nat \<Rightarrow> int" where
  "py_ssize x = (if x < 2 ^ 63 then int x else int x - 2 ^ 64)"

definition str_hash :: "nat \<times> nat \<Rightarrow> string \<Rightarrow> int" where
  "str_hash secret s =
     (if s = [] then 0
      else (let x = py_ssize (siphash13 (fst secret) (snd secret) s)
            in if x = - 1 then - 2 else x))"

text \<open>
  The environment of a process with the given secret; the secrets that
  \<^verbatim>\<open>PYTHONHASHSEED=0\<close> and \<^verbatim>\<open>PYTHONHASHSEED=1\<close> give; the text of a polygon.
\<close>

definition process_env :: "nat \<times> nat \<Rightarrow> env" where
  "process_env secret = example_env\<lparr>py_hash := str_hash secret\<rparr>"

definition secret_seed_0 :: "nat \<times> nat" where
  "secret_seed_0 = (0, 0)"

definition secret_seed_1 :: "nat \<times> nat" where
  "secret_seed_1 = (0xaed66ce184be2329, 0xebe9bbf1f1499052)"

definition unit_triangle :: string where
  "unit_triangle = ''POLYGON ((0 0, 1 0, 1 1, 0 0))''"

section \<open>Properties of the progress table\<close>

lemma status_percent_map_listing_sorted:
  "sorted (map snd status_percent_map) \<and> distinct (map fst status_percent_map)"
  by (simp add: status_percent_map_def)

text \<open>
  Claim C8. The table is meant to be non-decreasing along the phase order
  starting, validating, loading_theme, geocoding or fetching_boundary,
  fetching_data, fetching_streets, ..., completed. In the source the phase
  \<^verbatim>\<open>fetching_data\<close> has 20 percent, while \<^verbatim>\<open>geocoding\<close> and
  \<^verbatim>\<open>fetching_boundary\<close>, which come before it, have 25 percent: the table
  decreases at that step, for either choice of the fourth phase.
\<close>

theorem C8_table_decreases_at_fetching_data:
  "percent_of ''geocoding'' = Some 25 \<and>
   percent_of ''fetching_boundary'' = Some 25 \<and>
   percent_of ''fetching_data'' = Some 20 \<and>
   \<not> nondecreasing_along (spec_phase_order ''geocoding'') \<and>
   \<not> nondecreasing_along (spec_phase_order ''fetching_boundary'')"
  by (simp add: percent_of_def status_percent_map_def spec_phase_order_def)

section \<open>Properties of the cache and the fetchers\<close>

lemma trace_report_cache_Some:
  "trace (report_cache (Some cb) name hit w) = trace w @ [CacheCallback name hit]"
  by (auto simp: report_cache_def call_cb_def Let_def split: prod.splits option.splits sum.splits)

lemma files_report_cache: "files (report_cache cache_cb name hit w) = files w"
  by (auto simp: report_cache_def call_cb_def Let_def split: prod.splits option.splits sum.splits)

lemma trace_emit: "trace (emit ev w) = trace w @ [ev]"
  by (simp add: emit_def)

lemma files_emit: "files (emit ev w) = files w"
  by (simp add: emit_def)

lemma trace_persist: "trace (snd (persist env key val w)) = trace w"
  by (simp add: persist_def split: prod.splits sum.splits exn.splits)

lemma files_persist: "files (snd (persist env key val w)) = snd (cache_set env key val (files w))"
  by (auto simp: persist_def split: prod.splits sum.splits exn.splits)

lemma fst_persist: "files w = files w' \<Longrightarrow> fst (persist env key val w) = fst (persist env key val w')"
  by (auto simp: persist_def split: prod.splits sum.splits exn.splits)

lemma persist_CacheError:
  "fst (cache_set env key val (files w)) = Inl (CacheError m) \<Longrightarrow>
   fst (persist env key val w) = Inr val"
  by (auto simp: persist_def split: prod.splits sum.splits exn.splits)

lemma sink_report_cache:
  "sink (report_cache cache_cb name hit w)
     = (case cache_cb of None \<Rightarrow> sink w | Some cb \<Rightarrow> snd (cb name hit (sink w)))"
  by (auto simp: report_cache_def call_cb_def Let_def split: option.splits prod.splits sum.splits)

lemma sink_emit: "sink (emit ev w) = sink w"
  by (simp add: emit_def)

lemma sink_persist: "sink (snd (persist env key val w)) = sink w"
  by (simp add: persist_def split: prod.splits sum.splits exn.splits)

lemmas observe_defs =
  answered_from_cache_def missed_then_called_def new_events_def keeps_trace_def

subsection \<open>Cache hits and misses\<close>

lemma fetch_graph_hit:
  assumes "cache_get env (graph_key env pt dist) (files w) = Inr (Some cached)"
  shows "answered_from_cache w (fetch_graph env pt dist (Some cb) w) cb ''streets'' cached"
  using assms
  by (simp add: fetch_graph_def observe_defs trace_report_cache_Some files_report_cache
      sink_report_cache)

lemma fetch_graph_miss:
  assumes "cache_get env (graph_key env pt dist) (files w) = Inr None"
  shows "missed_then_called w (fetch_graph env pt dist (Some cb) w) cb ''streets'' GraphFromPoint 300"
  using assms
  by (simp add: fetch_graph_def Let_def observe_defs trace_report_cache_Some trace_persist
      trace_emit sink_report_cache sink_emit sink_persist split: sum.splits)

lemma fetch_features_hit:
  assumes "cache_get env (features_key name pt dist tgs) (files w) = Inr (Some cached)"
  shows "answered_from_cache w (fetch_features env pt dist tgs name (Some cb) w) cb name cached"
  using assms
  by (simp add: fetch_features_def observe_defs trace_report_cache_Some files_report_cache
      sink_report_cache)

lemma fetch_features_miss:
  assumes "cache_get env (features_key name pt dist tgs) (files w) = Inr None"
  shows "missed_then_called w (fetch_features env pt dist tgs name (Some cb) w) cb name FeaturesFromPoint 200"
  using assms
  by (simp add: fetch_features_def Let_def observe_defs trace_report_cache_Some trace_persist
      trace_emit sink_report_cache sink_emit sink_persist split: sum.splits)

lemma fetch_graph_from_polygon_hit:
  assumes "iloc0 boundary = Inr geom"
      and "cache_get env (graph_polygon_key env geom) (files w) = Inr (Some cached)"
  shows "answered_from_cache w (fetch_graph_from_polygon env boundary (Some cb) w) cb ''streets'' cached"
  using assms
  by (simp add: fetch_graph_from_polygon_def observe_defs trace_report_cache_Some
      files_report_cache sink_report_cache)

lemma fetch_graph_from_polygon_miss:
  assumes "iloc0 boundary = Inr geom"
      and "cache_get env (graph_polygon_key env geom) (files w) = Inr None"
  shows "missed_then_called w (fetch_graph_from_polygon env boundary (Some cb) w) cb
           ''streets'' GraphFromPolygon 200"
  using assms
  by (simp add: fetch_graph_from_polygon_def Let_def observe_defs trace_report_cache_Some
      trace_persist trace_emit sink_report_cache sink_emit sink_persist split: sum.splits)

lemma fetch_features_from_polygon_hit:
  assumes "iloc0 boundary = Inr geom"
      and "cache_get env (features_polygon_key env name geom tgs) (files w) = Inr (Some cached)"
  shows "answered_from_cache w (fetch_features_from_polygon env boundary tgs name (Some cb) w) cb
           name cached"
  using assms
  by (simp add: fetch_features_from_polygon_def observe_defs trace_report_cache_Some
      files_report_cache sink_report_cache)

lemma fetch_features_from_polygon_miss:
  assumes "iloc0 boundary = Inr geom"
      and "cache_get env (features_polygon_key env name geom tgs) (files w) = Inr None"
  shows "missed_then_called w (fetch_features_from_polygon env boundary tgs name (Some cb) w) cb
           name FeaturesFromPolygon 150"
  using assms
  by (simp add: fetch_features_from_polygon_def Let_def observe_defs trace_report_cache_Some
      trace_persist trace_emit sink_report_cache sink_emit sink_persist split: sum.splits)

text \<open>
  Claim C7. For each of the four fetchers, called with a cache callback: when
  the lookup of the computed key hits, the fetcher returns the cached value,
  the callback is invoked exactly once, with the dataset name and the flag
  true, and nothing else happens (no provider call, no delay, no write to the
  cache); when the lookup misses, the callback is invoked exactly once, with
  the flag false, and the provider call comes right after it. In both cases
  the receiver of the callback ends in the state in which that one call
  leaves it, whether the callback raises or not.
\<close>

theorem C7_callback_once_per_fetch:
  fixes cb :: "'r callback" and w :: "'r world"
  shows
    "(cache_get env (graph_key env pt dist) (files w) = Inr (Some cached) \<longrightarrow>
        answered_from_cache w (fetch_graph env pt dist (Some cb) w) cb ''streets'' cached) \<and>
     (cache_get env (graph_key env pt dist) (files w) = Inr None \<longrightarrow>
        missed_then_called w (fetch_graph env pt dist (Some cb) w) cb ''streets'' GraphFromPoint 300) \<and>
     (cache_get env (features_key name pt dist tgs) (files w) = Inr (Some cached) \<longrightarrow>
        answered_from_cache w (fetch_features env pt dist tgs name (Some cb) w) cb name cached) \<and>
     (cache_get env (features_key name pt dist tgs) (files w) = Inr None \<longrightarrow>
        missed_then_called w (fetch_features env pt dist tgs name (Some cb) w) cb
          name FeaturesFromPoint 200) \<and>
     (iloc0 boundary = Inr geom \<and>
      cache_get env (graph_polygon_key env geom) (files w) = Inr (Some cached) \<longrightarrow>
        answered_from_cache w (fetch_graph_from_polygon env boundary (Some cb) w) cb
          ''streets'' cached) \<and>
     (iloc0 boundary = Inr geom \<and>
      cache_get env (graph_polygon_key env geom) (files w) = Inr None \<longrightarrow>
        missed_then_called w (fetch_graph_from_polygon env boundary (Some cb) w) cb
          ''streets'' GraphFromPolygon 200) \<and>
     (iloc0 boundary = Inr geom \<and>
      cache_get env (features_polygon_key env name geom tgs) (files w) = Inr (Some cached) \<longrightarrow>
        answered_from_cache w (fetch_features_from_polygon env boundary tgs name (Some cb) w) cb
          name cached) \<and>
     (iloc0 boundary = Inr geom \<and>
      cache_get env (features_polygon_key env name geom tgs) (files w) = Inr None \<longrightarrow>
        missed_then_called w (fetch_features_from_polygon env boundary tgs name (Some cb) w) cb
          name FeaturesFromPolygon 150)"
  by (intro conjI impI; (elim conjE)?)
     (simp_all add: fetch_graph_hit fetch_graph_miss fetch_features_hit fetch_features_miss
        fetch_graph_from_polygon_hit fetch_graph_from_polygon_miss
        fetch_features_from_polygon_hit fetch_features_from_polygon_miss)

theorem C7_witness:
  "cache_get example_env (graph_key example_env (''-6.2'', ''106.8'') 5000)
      (files (noting_world (files cached_world))) = Inr (Some [''n1'']) \<and>
   answered_from_cache (noting_world (files cached_world))
     (fetch_graph example_env (''-6.2'', ''106.8'') 5000 (Some noting_cb)
        (noting_world (files cached_world)))
     noting_cb ''streets'' [''n1''] \<and>
   sink (snd (fetch_graph example_env (''-6.2'', ''106.8'') 5000 (Some noting_cb)
        (noting_world (files cached_world)))) = [(''streets'', True)] \<and>
   cache_get example_env (features_key ''water'' (''-6.2'', ''106.8'') 5000
        [(''natural'', ''water''), (''waterway'', ''riverbank'')]) (files (noting_world Map.empty))
      = Inr None \<and>
   missed_then_called (noting_world Map.empty)
     (fetch_features example_env (''-6.2'', ''106.8'') 5000
        [(''natural'', ''water''), (''waterway'', ''riverbank'')] ''water''
        (Some noting_raising_cb) (noting_world Map.empty))
     noting_raising_cb ''water'' FeaturesFromPoint 200 \<and>
   sink (snd (fetch_features example_env (''-6.2'', ''106.8'') 5000
        [(''natural'', ''water''), (''waterway'', ''riverbank'')] ''water''
        (Some noting_raising_cb) (noting_world Map.empty))) = [(''water'', False)]"
proof -
  have hit: "cache_get example_env (graph_key example_env (''-6.2'', ''106.8'') 5000)
      (files (noting_world (files cached_world))) = Inr (Some [''n1''])"
    by (simp add: cache_get_def cached_world_def noting_world_def)
  have miss: "cache_get example_env (features_key ''water'' (''-6.2'', ''106.8'') 5000
        [(''natural'', ''water''), (''waterway'', ''riverbank'')]) (files (noting_world Map.empty))
      = Inr None"
    by (simp add: cache_get_def noting_world_def)
  have answered: "answered_from_cache (noting_world (files cached_world))
     (fetch_graph example_env (''-6.2'', ''106.8'') 5000 (Some noting_cb)
        (noting_world (files cached_world)))
     noting_cb ''streets'' [''n1'']"
    using hit
      C7_callback_once_per_fetch [of example_env "(''-6.2'', ''106.8'')" 5000
        "noting_world (files cached_world)" "[''n1'']" noting_cb]
    by blast
  have missed: "missed_then_called (noting_world Map.empty)
     (fetch_features example_env (''-6.2'', ''106.8'') 5000
        [(''natural'', ''water''), (''waterway'', ''riverbank'')] ''water''
        (Some noting_raising_cb) (noting_world Map.empty))
     noting_raising_cb ''water'' FeaturesFromPoint 200"
    using miss
      C7_callback_once_per_fetch [of example_env "(''-6.2'', ''106.8'')" 5000
        "noting_world Map.empty" _ noting_raising_cb "''water''"
        "[(''natural'', ''water''), (''waterway'', ''riverbank'')]"]
    by blast
  from answered have hit_state:
    "sink (snd (fetch_graph example_env (''-6.2'', ''106.8'') 5000 (Some noting_cb)
        (noting_world (files cached_world)))) = [(''streets'', True)]"
    by (simp add: answered_from_cache_def noting_cb_def noting_world_def)
  from missed have miss_state:
    "sink (snd (fetch_features example_env (''-6.2'', ''106.8'') 5000
        [(''natural'', ''water''), (''waterway'', ''riverbank'')] ''water''
        (Some noting_raising_cb) (noting_world Map.empty))) = [(''water'', False)]"
    by (simp add: missed_then_called_def noting_raising_cb_def noting_world_def)
  from hit miss answered missed hit_state miss_state show ?thesis
    by (intro conjI)
qed

subsection \<open>Failures of the cache write\<close>

lemma messages_differ: "serialization_message name m \<noteq> file_message name' m'"
  by (simp add: serialization_message_def file_message_def)

lemma cache_set_result:
  "fst (cache_set env name obj fs) =
     (case failure_of (pickle_dump env (cache_file env name) obj) of
        None \<Rightarrow> Inr ()
      | Some f \<Rightarrow> Inl (cache_set_except name (raised f)))"
  by (simp add: cache_set_def Let_def split: dump_outcome.splits)

lemma cache_set_CacheError_iff:
  "(\<exists>m. fst (cache_set env name obj fs) = Inl (CacheError m)) \<longleftrightarrow>
   (\<exists>m. failure_of (pickle_dump env (cache_file env name) obj) = Some (Unpicklable m) \<or>
        failure_of (pickle_dump env (cache_file env name) obj) = Some (StorageFailure m))"
proof -
  have "(\<exists>m. cache_set_except name (raised f) = CacheError m) \<longleftrightarrow>
        (\<exists>m. f = Unpicklable m \<or> f = StorageFailure m)" for f
    by (cases f) auto
  then show ?thesis
    by (auto simp: cache_set_result split: option.splits)
qed

lemma cache_set_silent_iff:
  "fst (cache_set env name obj fs) = Inr () \<longleftrightarrow>
   failure_of (pickle_dump env (cache_file env name) obj) = None"
  by (simp add: cache_set_result split: option.splits)

lemma fetch_graph_persist_fails:
  assumes "cache_get env (graph_key env pt dist) (files w) = Inr None"
      and "graph_from_point env pt dist (OSM_NETWORK_TYPE env) = Inr (Some G)" and "G \<noteq> []"
      and "fst (cache_set env (graph_key env pt dist) (Some G) (files w)) = Inl (CacheError m)"
  shows "fst (fetch_graph env pt dist cache_cb w) = Inr (Some G)"
  using assms
  by (simp add: fetch_graph_def Let_def persist_CacheError files_report_cache files_emit)

lemma fetch_features_persist_fails:
  assumes "cache_get env (features_key name pt dist tgs) (files w) = Inr None"
      and "features_from_point env pt tgs dist = Inr (Some data)" and "data \<noteq> []"
      and "fst (cache_set env (features_key name pt dist tgs) (Some data) (files w)) = Inl (CacheError m)"
  shows "fst (fetch_features env pt dist tgs name cache_cb w) = Inr (Some data)"
  using assms
  by (simp add: fetch_features_def Let_def persist_CacheError files_report_cache files_emit)

lemma fetch_graph_from_polygon_persist_fails:
  assumes "iloc0 boundary = Inr geom"
      and "cache_get env (graph_polygon_key env geom) (files w) = Inr None"
      and "graph_from_polygon env geom (OSM_NETWORK_TYPE env) = Inr G"
      and "fst (cache_set env (graph_polygon_key env geom) G (files w)) = Inl (CacheError m)"
  shows "fst (fetch_graph_from_polygon env boundary cache_cb w) = Inr G"
  using assms
  by (simp add: fetch_graph_from_polygon_def Let_def persist_CacheError files_report_cache
      files_emit)

lemma fetch_features_from_polygon_persist_fails:
  assumes "iloc0 boundary = Inr geom"
      and "cache_get env (features_polygon_key env name geom tgs) (files w) = Inr None"
      and "features_from_polygon env geom tgs = Inr data"
      and "fst (cache_set env (features_polygon_key env name geom tgs) data (files w))
             = Inl (CacheError m)"
  shows "fst (fetch_features_from_polygon env boundary tgs name cache_cb w) = Inr data"
  using assms
  by (simp add: fetch_features_from_polygon_def Let_def persist_CacheError files_report_cache
      files_emit)

text \<open>
  The failures that \<^verbatim>\<open>cache_set\<close> handles: it raises \<^verbatim>\<open>CacheError\<close> on a
  \<^verbatim>\<open>pickle.PickleError\<close> and on an \<^verbatim>\<open>OSError\<close>, each with its own message, and
  in no other case; it returns normally exactly when writing raised nothing;
  the two messages are never equal. And in each of the four fetchers a
  \<^verbatim>\<open>CacheError\<close> of the persist step does not abort the fetch: the fetcher
  returns the value that the provider has just given.
\<close>

lemma handled_write_failures:
  fixes w :: "'r world"
  shows
    "(\<forall>m. failure_of (pickle_dump env (cache_file env name) obj) = Some (Unpicklable m) \<longrightarrow>
          fst (cache_set env name obj fs) = Inl (CacheError (serialization_message name m))) \<and>
     (\<forall>m. failure_of (pickle_dump env (cache_file env name) obj) = Some (StorageFailure m) \<longrightarrow>
          fst (cache_set env name obj fs) = Inl (CacheError (file_message name m))) \<and>
     ((\<exists>m. fst (cache_set env name obj fs) = Inl (CacheError m)) \<longleftrightarrow>
      (\<exists>m. failure_of (pickle_dump env (cache_file env name) obj) = Some (Unpicklable m) \<or>
           failure_of (pickle_dump env (cache_file env name) obj) = Some (StorageFailure m))) \<and>
     (fst (cache_set env name obj fs) = Inr () \<longleftrightarrow>
        failure_of (pickle_dump env (cache_file env name) obj) = None) \<and>
     (\<forall>m m'. serialization_message name m \<noteq> file_message name m') \<and>
     (\<forall>G m. cache_get env (graph_key env pt dist) (files w) = Inr None \<and>
            graph_from_point env pt dist (OSM_NETWORK_TYPE env) = Inr (Some G) \<and> G \<noteq> [] \<and>
            fst (cache_set env (graph_key env pt dist) (Some G) (files w)) = Inl (CacheError m) \<longrightarrow>
            fst (fetch_graph env pt dist cache_cb w) = Inr (Some G)) \<and>
     (\<forall>data m. cache_get env (features_key dname pt dist tgs) (files w) = Inr None \<and>
            features_from_point env pt tgs dist = Inr (Some data) \<and> data \<noteq> [] \<and>
            fst (cache_set env (features_key dname pt dist tgs) (Some data) (files w))
              = Inl (CacheError m) \<longrightarrow>
            fst (fetch_features env pt dist tgs dname cache_cb w) = Inr (Some data)) \<and>
     (\<forall>geom G m. iloc0 boundary = Inr geom \<and>
            cache_get env (graph_polygon_key env geom) (files w) = Inr None \<and>
            graph_from_polygon env geom (OSM_NETWORK_TYPE env) = Inr G \<and>
            fst (cache_set env (graph_polygon_key env geom) G (files w)) = Inl (CacheError m) \<longrightarrow>
            fst (fetch_graph_from_polygon env boundary cache_cb w) = Inr G) \<and>
     (\<forall>geom data m. iloc0 boundary = Inr geom \<and>
            cache_get env (features_polygon_key env dname geom tgs) (files w) = Inr None \<and>
            features_from_polygon env geom tgs = Inr data \<and>
            fst (cache_set env (features_polygon_key env dname geom tgs) data (files w))
              = Inl (CacheError m) \<longrightarrow>
            fst (fetch_features_from_polygon env boundary tgs dname cache_cb w) = Inr data)"
proof (intro conjI allI impI)
  fix m assume "failure_of (pickle_dump env (cache_file env name) obj) = Some (Unpicklable m)"
  then show "fst (cache_set env name obj fs) = Inl (CacheError (serialization_message name m))"
    by (simp add: cache_set_result)
next
  fix m assume "failure_of (pickle_dump env (cache_file env name) obj) = Some (StorageFailure m)"
  then show "fst (cache_set env name obj fs) = Inl (CacheError (file_message name m))"
    by (simp add: cache_set_result)
next
  show "(\<exists>m. fst (cache_set env name obj fs) = Inl (CacheError m)) \<longleftrightarrow>
      (\<exists>m. failure_of (pickle_dump env (cache_file env name) obj) = Some (Unpicklable m) \<or>
           failure_of (pickle_dump env (cache_file env name) obj) = Some (StorageFailure m))"
    by (rule cache_set_CacheError_iff)
next
  show "fst (cache_set env name obj fs) = Inr () \<longleftrightarrow>
        failure_of (pickle_dump env (cache_file env name) obj) = None"
    by (rule cache_set_silent_iff)
next
  fix m m' show "serialization_message name m \<noteq> file_message name m'"
    by (rule messages_differ)
qed (auto intro: fetch_graph_persist_fails fetch_features_persist_fails
      fetch_graph_from_polygon_persist_fails fetch_features_from_polygon_persist_fails)

lemma handled_write_failures_example:
  "failure_of (pickle_dump full_disk_env (cache_file full_disk_env
       (graph_key full_disk_env (''-6.2'', ''106.8'') 5000)) (Some [''n1'', ''n2'']))
     = Some (StorageFailure ''No space left on device'') \<and>
   fst (cache_set full_disk_env (graph_key full_disk_env (''-6.2'', ''106.8'') 5000)
          (Some [''n1'', ''n2'']) (files empty_world))
     = Inl (CacheError (file_message (graph_key full_disk_env (''-6.2'', ''106.8'') 5000)
          ''No space left on device'')) \<and>
   cache_get full_disk_env (graph_key full_disk_env (''-6.2'', ''106.8'') 5000) (files empty_world)
     = Inr None \<and>
   graph_from_point full_disk_env (''-6.2'', ''106.8'') 5000 (OSM_NETWORK_TYPE full_disk_env)
     = Inr (Some [''n1'', ''n2'']) \<and>
   fst (fetch_graph full_disk_env (''-6.2'', ''106.8'') 5000 (Some silent_cb) empty_world)
     = Inr (Some [''n1'', ''n2''])"
proof -
  have fails: "failure_of (pickle_dump full_disk_env (cache_file full_disk_env
       (graph_key full_disk_env (''-6.2'', ''106.8'') 5000)) (Some [''n1'', ''n2'']))
     = Some (StorageFailure ''No space left on device'')"
    by (simp add: full_disk_env_def example_env_def)
  have miss: "cache_get full_disk_env (graph_key full_disk_env (''-6.2'', ''106.8'') 5000)
      (files empty_world) = Inr None"
    by (simp add: cache_get_def empty_world_def)
  have prov: "graph_from_point full_disk_env (''-6.2'', ''106.8'') 5000
      (OSM_NETWORK_TYPE full_disk_env) = Inr (Some [''n1'', ''n2''])"
    by (simp add: full_disk_env_def example_env_def)
  note C9 = handled_write_failures [of full_disk_env
      "graph_key full_disk_env (''-6.2'', ''106.8'') 5000" "Some [''n1'', ''n2'']"
      "files empty_world" "(''-6.2'', ''106.8'')" 5000 empty_world "Some silent_cb"]
  from C9 fails have raised: "fst (cache_set full_disk_env (graph_key full_disk_env (''-6.2'', ''106.8'') 5000)
          (Some [''n1'', ''n2'']) (files empty_world))
     = Inl (CacheError (file_message (graph_key full_disk_env (''-6.2'', ''106.8'') 5000)
          ''No space left on device''))"
    by blast
  from C9 miss prov raised
  have "fst (fetch_graph full_disk_env (''-6.2'', ''106.8'') 5000 (Some silent_cb) empty_world)
     = Inr (Some [''n1'', ''n2''])"
    by blast
  with fails miss prov raised show ?thesis by blast
qed

text \<open>
  Claim C9. A failure of the serialization is meant to make \<^verbatim>\<open>cache_set\<close>
  raise \<^verbatim>\<open>CacheError\<close> and no other exception, and a failed cache write is
  meant never to abort a fetch. In the code it is otherwise: when \<^verbatim>\<open>pickle.dump\<close>
  fails on the fetched graph with a \<^verbatim>\<open>TypeError\<close> (the object has no pickle),
  \<^verbatim>\<open>cache_set\<close> raises that \<^verbatim>\<open>TypeError\<close> and not a \<^verbatim>\<open>CacheError\<close>, and
  \<^verbatim>\<open>fetch_graph\<close>, whose provider has just answered with a graph, returns
  \<^verbatim>\<open>None\<close> instead of that graph; so does each of the other three fetchers.
\<close>

theorem C9_unhandled_serialization_failure:
  "failure_of (pickle_dump lock_env
       (cache_file lock_env (graph_key lock_env (''-6.2'', ''106.8'') 5000)) (Some [''n1'', ''n2'']))
     = Some (TypeFailure ''cannot pickle _thread.lock object'') \<and>
   fst (cache_set lock_env (graph_key lock_env (''-6.2'', ''106.8'') 5000)
          (Some [''n1'', ''n2'']) (files empty_world))
     = Inl (TypeError ''cannot pickle _thread.lock object'') \<and>
   (\<nexists>m. fst (cache_set lock_env (graph_key lock_env (''-6.2'', ''106.8'') 5000)
          (Some [''n1'', ''n2'']) (files empty_world)) = Inl (CacheError m)) \<and>
   cache_get lock_env (graph_key lock_env (''-6.2'', ''106.8'') 5000) (files empty_world)
     = Inr None \<and>
   graph_from_point lock_env (''-6.2'', ''106.8'') 5000 (OSM_NETWORK_TYPE lock_env)
     = Inr (Some [''n1'', ''n2'']) \<and>
   fst (fetch_graph lock_env (''-6.2'', ''106.8'') 5000 (Some silent_cb) empty_world)
     = Inr None \<and>
   fst (fetch_features lock_env (''-6.2'', ''106.8'') 5000 water_tags ''water''
          (Some silent_cb) empty_world) = Inr None \<and>
   fst (fetch_graph_from_polygon lock_env [unit_triangle] (Some silent_cb) empty_world)
     = Inr None \<and>
   fst (fetch_features_from_polygon lock_env [unit_triangle] water_tags ''water''
          (Some silent_cb) empty_world) = Inr None"
  by (simp add: lock_env_def example_env_def cache_set_def cache_get_def cache_file_def
      fetch_graph_def fetch_features_def fetch_graph_from_polygon_def
      fetch_features_from_polygon_def graph_key_def features_key_def graph_polygon_key_def
      features_polygon_key_def iloc0_def persist_def report_cache_def call_cb_def silent_cb_def
      emit_def empty_world_def water_tags_def unit_triangle_def Let_def)

subsection \<open>The cache callback cannot influence a fetch\<close>

lemma fetch_graph_any_callback:
  "fst (fetch_graph env pt dist cache_cb w) = fst (fetch_graph env pt dist None w) \<and>
   files (snd (fetch_graph env pt dist cache_cb w)) = files (snd (fetch_graph env pt dist None w))"
  by (auto simp: fetch_graph_def Let_def files_report_cache files_emit files_persist
      intro!: fst_persist split: sum.splits option.splits)

lemma fetch_features_any_callback:
  "fst (fetch_features env pt dist tgs name cache_cb w)
     = fst (fetch_features env pt dist tgs name None w) \<and>
   files (snd (fetch_features env pt dist tgs name cache_cb w))
     = files (snd (fetch_features env pt dist tgs name None w))"
  by (auto simp: fetch_features_def Let_def files_report_cache files_emit files_persist
      intro!: fst_persist split: sum.splits option.splits)

lemma fetch_graph_from_polygon_any_callback:
  "fst (fetch_graph_from_polygon env boundary cache_cb w)
     = fst (fetch_graph_from_polygon env boundary None w) \<and>
   files (snd (fetch_graph_from_polygon env boundary cache_cb w))
     = files (snd (fetch_graph_from_polygon env boundary None w))"
  by (auto simp: fetch_graph_from_polygon_def Let_def files_report_cache files_emit files_persist
      intro!: fst_persist split: sum.splits option.splits)

lemma fetch_features_from_polygon_any_callback:
  "fst (fetch_features_from_polygon env boundary tgs name cache_cb w)
     = fst (fetch_features_from_polygon env boundary tgs name None w) \<and>
   files (snd (fetch_features_from_polygon env boundary tgs name cache_cb w))
     = files (snd (fetch_features_from_polygon env boundary tgs name None w))"
  by (auto simp: fetch_features_from_polygon_def Let_def files_report_cache files_emit
      files_persist intro!: fst_persist split: sum.splits option.splits)

lemma raising_cb_example:
  "fetch_graph example_env (''-6.2'', ''106.8'') 5000 (Some raising_cb) empty_world =
     (Inr (Some [''n1'', ''n2'']),
      \<lparr>files = [cache_file example_env (graph_key example_env (''-6.2'', ''106.8'') 5000)
                 \<mapsto> Pickled (Some [''n1'', ''n2''])],
       trace = [CacheCallback ''streets'' False, ProviderCall GraphFromPoint, Sleep 300],
       sink = ()\<rparr>)"
  by (simp add: fetch_graph_def cache_get_def empty_world_def report_cache_def call_cb_def
      raising_cb_def emit_def example_env_def persist_def cache_set_def Let_def)

text \<open>
  Claim C10. For each of the four fetchers and any two cache callbacks, one of
  which may raise whenever it is invoked while the other never raises, the two
  runs return the same value and leave the same files in the cache directory:
  an exception of the callback is swallowed by \<^verbatim>\<open>_report_cache\<close> and never
  changes or aborts the fetch.
\<close>

theorem C10_faulty_callback_changes_nothing:
  fixes cb cb' :: "'r callback" and w :: "'r world"
  shows
    "fst (fetch_graph env pt dist (Some cb) w) = fst (fetch_graph env pt dist (Some cb') w) \<and>
     files (snd (fetch_graph env pt dist (Some cb) w))
       = files (snd (fetch_graph env pt dist (Some cb') w)) \<and>
     fst (fetch_features env pt dist tgs name (Some cb) w)
       = fst (fetch_features env pt dist tgs name (Some cb') w) \<and>
     files (snd (fetch_features env pt dist tgs name (Some cb) w))
       = files (snd (fetch_features env pt dist tgs name (Some cb') w)) \<and>
     fst (fetch_graph_from_polygon env boundary (Some cb) w)
       = fst (fetch_graph_from_polygon env boundary (Some cb') w) \<and>
     files (snd (fetch_graph_from_polygon env boundary (Some cb) w))
       = files (snd (fetch_graph_from_polygon env boundary (Some cb') w)) \<and>
     fst (fetch_features_from_polygon env boundary tgs name (Some cb) w)
       = fst (fetch_features_from_polygon env boundary tgs name (Some cb') w) \<and>
     files (snd (fetch_features_from_polygon env boundary tgs name (Some cb) w))
       = files (snd (fetch_features_from_polygon env boundary tgs name (Some cb') w))"
  using fetch_graph_any_callback [of env pt dist "Some cb" w]
    fetch_graph_any_callback [of env pt dist "Some cb'" w]
    fetch_features_any_callback [of env pt dist tgs name "Some cb" w]
    fetch_features_any_callback [of env pt dist tgs name "Some cb'" w]
    fetch_graph_from_polygon_any_callback [of env boundary "Some cb" w]
    fetch_graph_from_polygon_any_callback [of env boundary "Some cb'" w]
    fetch_features_from_polygon_any_callback [of env boundary tgs name "Some cb" w]
    fetch_features_from_polygon_any_callback [of env boundary tgs name "Some cb'" w]
  by simp

section \<open>Properties of the fetch round\<close>

lemma trace_report_cache:
  "trace (report_cache cache_cb name hit w) =
     trace w @ (case cache_cb of None \<Rightarrow> [] | Some cb \<Rightarrow> [CacheCallback name hit])"
  by (auto simp: report_cache_def call_cb_def Let_def split: option.splits prod.splits sum.splits)

lemma extends_fetch_graph:
  "extends_by_fetch_events w (snd (fetch_graph env pt dist cache_cb w))"
  by (simp add: fetch_graph_def Let_def extends_by_fetch_events_def trace_report_cache
      trace_emit trace_persist split: sum.splits option.splits)

lemma extends_fetch_features:
  "extends_by_fetch_events w (snd (fetch_features env pt dist tgs name cache_cb w))"
  by (simp add: fetch_features_def Let_def extends_by_fetch_events_def trace_report_cache
      trace_emit trace_persist split: sum.splits option.splits)

lemma extends_fetch_graph_from_polygon:
  "extends_by_fetch_events w (snd (fetch_graph_from_polygon env boundary cache_cb w))"
  by (simp add: fetch_graph_from_polygon_def Let_def extends_by_fetch_events_def
      trace_report_cache trace_emit trace_persist split: sum.splits option.splits)

lemma extends_fetch_features_from_polygon:
  "extends_by_fetch_events w (snd (fetch_features_from_polygon env boundary tgs name cache_cb w))"
  by (simp add: fetch_features_from_polygon_def Let_def extends_by_fetch_events_def
      trace_report_cache trace_emit trace_persist split: sum.splits option.splits)

lemma extends_streets_call: "extends_by_fetch_events w (snd (streets_call env args w))"
  by (simp add: streets_call_def extends_fetch_graph extends_fetch_graph_from_polygon
      extends_by_fetch_events_def [of w w] split: option.splits)

lemma snd_swallow:
  "snd (case attempt of (Inl e, w') \<Rightarrow> (Inr None, w') | (Inr v, w') \<Rightarrow> (Inr v, w')) = snd attempt"
  by (simp split: prod.splits sum.splits)

lemma extends_features_call:
  "extends_by_fetch_events w (snd (features_call env args tgs name w))"
  by (simp add: features_call_def Let_def snd_swallow extends_fetch_features
      extends_fetch_features_from_polygon extends_by_fetch_events_def [of w w]
      split: option.splits list.splits)

lemma extends_task_call: "extends_by_fetch_events w (snd (task_call env args t w))"
  by (cases t) (simp_all add: extends_streets_call extends_features_call)

lemma extends_keeps_all_done_update:
  assumes "extends_by_fetch_events w w'"
  shows "all_done_update \<in> set (trace w') \<longleftrightarrow> all_done_update \<in> set (trace w)"
proof -
  let ?n = "length (trace w)"
  have "trace w' = trace w @ drop ?n (trace w')"
    using assms append_take_drop_id [of ?n "trace w'"] by (simp add: extends_by_fetch_events_def)
  moreover have "all_done_update \<notin> set (drop ?n (trace w'))"
    using assms by (auto simp: extends_by_fetch_events_def list_all_iff all_done_update_def)
  ultimately show ?thesis
    by (metis Un_iff set_append)
qed

lemma worker_step_main: "main (worker_step env args t c) = main c"
  by (simp add: worker_step_def Let_def split: task_pc.splits)

lemma worker_step_resolved:
  "is_resolved (pc c t') \<Longrightarrow> is_resolved (pc (worker_step env args t c) t')"
  by (cases "pc c t") (auto simp: worker_step_def Let_def)

lemma worker_step_all_resolved: "all_resolved c \<Longrightarrow> all_resolved (worker_step env args t c)"
  by (simp add: all_resolved_def worker_step_resolved)

lemma trace_announce:
  "trace (announce args t w) = trace w @ [Published (step_key t) (start_message t)]"
  by (simp add: announce_def Let_def emit_def)

lemma worker_step_all_done_update:
  "all_done_update \<in> set (trace (shared (worker_step env args t c))) \<longleftrightarrow>
   all_done_update \<in> set (trace (shared c))"
proof (cases "pc c t")
  case Submitted
  then show ?thesis
    by (cases t) (simp_all add: worker_step_def trace_announce all_done_update_def)
next
  case Announced
  then show ?thesis by (simp add: worker_step_def)
next
  case PastCheckpoint
  then show ?thesis
    using extends_keeps_all_done_update [OF extends_task_call [of "shared c" env args t]]
    by (simp add: worker_step_def Let_def)
next
  case (Resolved r)
  then show ?thesis by (simp add: worker_step_def)
qed

lemma round_inv_worker_step: "round_inv c \<Longrightarrow> round_inv (worker_step env args t c)"
  unfolding round_inv_def
  by (simp add: worker_step_main worker_step_all_done_update worker_step_resolved
      worker_step_all_resolved)

lemma round_inv_main_step: "round_inv c \<Longrightarrow> round_inv (main_step args c)"
proof (cases "main c")
  case (Await t)
  assume inv: "round_inv c"
  show ?thesis
  proof (cases "pc c t")
    case (Resolved r)
    with Await inv show ?thesis
      by (cases r; cases t)
        (auto simp: main_step_def round_inv_def all_resolved_def)
  qed (use Await inv in \<open>simp_all add: main_step_def\<close>)
next
  case (Unwinding e)
  then show "round_inv c \<Longrightarrow> round_inv (main_step args c)"
    by (auto simp: main_step_def round_inv_def all_resolved_def)
next
  case Joined
  then show "round_inv c \<Longrightarrow> round_inv (main_step args c)"
    by (auto simp: main_step_def finish_round_def Let_def round_inv_def all_resolved_def)
next
  case (Finished r)
  then show "round_inv c \<Longrightarrow> round_inv (main_step args c)"
    by (simp add: main_step_def)
qed

lemma round_inv_cancel_step: "round_inv c \<Longrightarrow> round_inv (cancel_step args c)"
  by (auto simp: cancel_step_def Let_def round_inv_def all_resolved_def emit_def all_done_update_def)

lemma round_inv_step: "round_inv c \<Longrightarrow> round_inv (step env args a c)"
  by (cases a) (simp_all add: round_inv_worker_step round_inv_main_step round_inv_cancel_step)

lemma round_inv_run: "round_inv c \<Longrightarrow> round_inv (run env args sched c)"
  by (induction sched arbitrary: c) (simp_all add: round_inv_step)

lemma round_inv_submitted: "round_inv (submitted reg fs)"
  by (simp add: round_inv_def submitted_def)

subsection \<open>A fetch depends on the cache directory only\<close>

lemma persist_world_indep:
  "files w = files w' \<Longrightarrow>
   fst (persist env key val w) = fst (persist env key val w') \<and>
   files (snd (persist env key val w)) = files (snd (persist env key val w'))"
  by (auto simp: persist_def split: prod.splits sum.splits exn.splits)










subsection \<open>The cancellation flag stays set during a round\<close>

















subsection \<open>Evaluating a round\<close>

lemmas round_defs =
  fetch_map_data_parallel_def submitted_def worker_step_def main_step_def cancel_step_def
  finish_round_def announce_def streets_call_def features_call_def status_update_def
  update_progress_def dict_update_def no_fields_def pick_def is_cancelled_def api_cancel_def
  round_cache_cb_def water_tags_def parks_tags_def all_done_message_def all_resolved_def
  new_events_def cancel_seen_def all_done_update_def

lemmas fetch_defs =
  fetch_graph_def fetch_features_def fetch_graph_from_polygon_def fetch_features_from_polygon_def
  graph_key_def features_key_def graph_polygon_key_def features_polygon_key_def iloc0_def
  cache_get_def cache_set_def cache_file_def persist_def report_cache_def call_cb_def emit_def
  str_int_def str_nat.simps digit_char_def

text \<open>
  Claim C6. In every fetch round, whatever the schedule of the three fetchers,
  the main thread and the cancel requests, and so whatever the order in which
  the three fetchers complete: when the update for the whole round (status
  \<^verbatim>\<open>fetching_data\<close>, message \<^verbatim>\<open>Semua data berhasil diambil\<close>) has been published,
  the futures of streets, water and parks are all resolved.
\<close>

theorem C6_join_before_all_done:
  "all_done_update \<in> set (trace (shared (fetch_map_data_parallel env args sched reg fs))) \<longrightarrow>
   all_resolved (fetch_map_data_parallel env args sched reg fs)"
  using round_inv_run [OF round_inv_submitted, of env args sched reg fs]
  by (simp add: fetch_map_data_parallel_def round_inv_def)

theorem C6_witness:
  "all_done_update \<in> set (trace (shared
      (fetch_map_data_parallel example_env example_args staggered Map.empty Map.empty))) \<and>
   all_resolved (fetch_map_data_parallel example_env example_args staggered Map.empty Map.empty) \<and>
   all_done_update \<notin> set (trace (shared
      (fetch_map_data_parallel example_env example_args (take 11 staggered) Map.empty Map.empty)))"
proof -
  have pub: "all_done_update \<in> set (trace (shared
      (fetch_map_data_parallel example_env example_args staggered Map.empty Map.empty)))"
    by (simp add: round_defs fetch_defs example_env_def example_args_def staggered_def Let_def)
  have nopub: "all_done_update \<notin> set (trace (shared
      (fetch_map_data_parallel example_env example_args (take 11 staggered) Map.empty Map.empty)))"
    by (simp add: round_defs fetch_defs example_env_def example_args_def staggered_def Let_def)
  from pub nopub show ?thesis
    using C6_join_before_all_done [of example_env example_args staggered Map.empty Map.empty]
    by blast
qed



text \<open>
  Claim C2. The round fails exactly when the street fetcher yields \<^verbatim>\<open>None\<close>;
  an empty street graph is meant to be such a failure. With a boundary, an
  empty graph from the provider is returned as it is by
  \<^verbatim>\<open>fetch_graph_from_polygon\<close>, and the round returns a bundle whose graph is
  empty; with a point and the same provider, \<^verbatim>\<open>fetch_graph\<close> turns the empty
  graph into \<^verbatim>\<open>None\<close> and the round raises.
\<close>

theorem C2_empty_polygon_graph_is_returned:
  "main (fetch_map_data_parallel empty_graph_env polygon_args in_order Map.empty Map.empty) =
     Finished (Inr \<lparr>res_G = Some [],
                    res_water = Some [''POLYGON ((0 0, 1 0, 1 1, 0 0))''],
                    res_parks = Some [''POLYGON ((0 0, 1 0, 1 1, 0 0))'']\<rparr>) \<and>
   main (fetch_map_data_parallel empty_graph_env example_args in_order Map.empty Map.empty) =
     Finished (Inl (ValueError ''Failed to fetch street network data''))"
  by (simp add: round_defs fetch_defs empty_graph_env_def example_env_def polygon_args_def
      example_args_def in_order_def Let_def)

section \<open>Properties of the poster job\<close>

subsection \<open>The location of a request\<close>

lemma trace_publish: "trace (publish task_id st msg w) = trace w @ [Published st msg]"
  by (simp add: publish_def emit_def)

lemma status_publish:
  "shows_status (sink (publish task_id st msg w)) task_id st' \<longleftrightarrow> st = st'"
  by (simp add: shows_status_def publish_def emit_def update_progress_def dict_update_def status_update_def
      no_fields_def pick_def Let_def)

lemma resolve_subdistrict:
  "\<not> use_coordinates r \<Longrightarrow> truthy (kecamatan r) \<Longrightarrow>
   resolve_location lk task_id r w =
     boundary_answer task_id
       (''Tidak dapat mengambil batas kecamatan. '' @
        ''Pastikan nama kecamatan lengkap dengan kota dan negara.'')
       (fmt (kecamatan r)) ''''
       (fetch_subdistrict_boundary lk (fmt (kecamatan r)))
       (emit (LookupCall ''fetch_subdistrict_boundary'' (fmt (kecamatan r)))
          (publish task_id ''fetching_boundary''
             (''Mengambil batas untuk kecamatan: '' @ fmt (kecamatan r)) w))"
  unfolding resolve_location_def boundary_answer_def Let_def by (simp only: if_True if_False simp_thms)

lemma resolve_coordinates:
  "use_coordinates r \<Longrightarrow>
   resolve_location lk task_id r w = (expected_outcome lk r ExplicitCoordinates, w)"
  unfolding resolve_location_def by (simp only: if_True) (simp split: sum.splits)

lemma resolve_delineation:
  "\<not> use_coordinates r \<Longrightarrow> \<not> truthy (kecamatan r) \<Longrightarrow>
   use_delineation r \<and> truthy (kota r) \<and> truthy (negara r) \<Longrightarrow>
   resolve_location lk task_id r w =
     boundary_answer task_id
       (''Tidak dapat menemukan batas untuk '' @ (fmt (kota r) @ '', '' @ fmt (negara r)) @
        ''. Coba gunakan radius biasa.'')
       (fmt (kota r) @ '', '' @ fmt (negara r)) (fmt (negara r))
       (fetch_city_boundary lk (fmt (kota r) @ '', '' @ fmt (negara r)))
       (emit (LookupCall ''fetch_city_boundary'' (fmt (kota r) @ '', '' @ fmt (negara r)))
          (publish task_id ''fetching_boundary''
             (''Mengambil batas untuk '' @ (fmt (kota r) @ '', '' @ fmt (negara r))) w))"
  unfolding resolve_location_def boundary_answer_def Let_def by (simp only: if_True if_False simp_thms)

lemma resolve_country:
  "\<not> use_coordinates r \<Longrightarrow> \<not> truthy (kecamatan r) \<Longrightarrow>
   \<not> (use_delineation r \<and> truthy (kota r) \<and> truthy (negara r)) \<Longrightarrow>
   \<not> truthy (kota r) \<and> truthy (negara r) \<Longrightarrow>
   resolve_location lk task_id r w =
     boundary_answer task_id
       (''Tidak dapat menemukan batas untuk '' @ fmt (negara r) @ ''.'')
       (fmt (negara r)) (fmt (negara r))
       (fetch_city_boundary lk (fmt (negara r)))
       (emit (LookupCall ''fetch_city_boundary'' (fmt (negara r)))
          (publish task_id ''fetching_boundary''
             (''Mengambil batas untuk '' @ fmt (negara r)) w))"
  unfolding resolve_location_def boundary_answer_def Let_def by (simp only: if_True if_False simp_thms)

lemma resolve_geocoding:
  "\<not> use_coordinates r \<Longrightarrow> \<not> truthy (kecamatan r) \<Longrightarrow>
   \<not> (use_delineation r \<and> truthy (kota r) \<and> truthy (negara r)) \<Longrightarrow>
   \<not> (\<not> truthy (kota r) \<and> truthy (negara r)) \<Longrightarrow>
   resolve_location lk task_id r w =
     geocoding_answer lk task_id r
       (emit (LookupCall ''get_coordinates'' (fmt (kota r) @ '', '' @ fmt (negara r)))
          (publish task_id ''geocoding''
             (''Mencari koordinat untuk '' @ (fmt (kota r) @ '', '' @ fmt (negara r))) w))"
  unfolding resolve_location_def geocoding_answer_def Let_def by (simp only: if_True if_False simp_thms)

lemma lookups_made_boundary_answer:
  "lookups_made w (boundary_answer task_id failure name country answer
      (emit (LookupCall f x) (publish task_id st msg w))) = [LookupCall f x]"
  by (simp add: lookups_made_def boundary_answer_def trace_publish trace_emit split: sum.splits)

lemma lookups_made_geocoding_answer:
  "lookups_made w (geocoding_answer lk task_id r
      (emit (LookupCall f x) (publish task_id st msg w))) = [LookupCall f x]"
  by (simp add: lookups_made_def geocoding_answer_def trace_publish trace_emit
      split: sum.splits option.splits prod.splits)

lemma outcome_boundary_answer:
  "fst (boundary_answer task_id failure name country answer w)
     = boundary_outcome answer name country"
  by (simp add: boundary_answer_def boundary_outcome_def split: sum.splits)

lemma outcome_geocoding_answer:
  "fst (geocoding_answer lk task_id r w) = expected_outcome lk r CityCountryGeocoding"
  by (simp add: geocoding_answer_def split: sum.splits option.splits prod.splits)

lemma halted_no_events: "\<not> halted_with_error task_id w (out, w)"
  by (simp add: halted_with_error_def)

lemma halted_boundary_answer:
  "halted_with_error task_id w (boundary_answer task_id failure name country answer
      (emit (LookupCall f x) (publish task_id st msg w)))
   = (boundary_outcome answer name country = Return)"
  by (cases answer)
    (simp_all add: halted_with_error_def boundary_answer_def boundary_outcome_def trace_publish
      trace_emit status_publish)

lemma halted_geocoding_answer:
  "halted_with_error task_id w (geocoding_answer lk task_id r
      (emit (LookupCall f x) (publish task_id st msg w)))
   = (expected_outcome lk r CityCountryGeocoding = Return)"
  by (simp add: halted_with_error_def geocoding_answer_def trace_publish trace_emit
      status_publish split: sum.splits option.splits prod.splits)

lemma resolved_boundary_answer:
  "expected_lookups r m = [LookupCall f x] \<Longrightarrow>
   expected_outcome lk r m = boundary_outcome answer name country \<Longrightarrow>
   resolved_in m lk task_id r w
     (boundary_answer task_id failure name country answer
        (emit (LookupCall f x) (publish task_id st msg w)))"
  by (simp add: resolved_in_def lookups_made_boundary_answer outcome_boundary_answer
      halted_boundary_answer)

lemma resolved_geocoding_answer:
  "expected_lookups r CityCountryGeocoding = [LookupCall f x] \<Longrightarrow>
   resolved_in CityCountryGeocoding lk task_id r w
     (geocoding_answer lk task_id r (emit (LookupCall f x) (publish task_id st msg w)))"
  by (simp add: resolved_in_def lookups_made_geocoding_answer outcome_geocoding_answer
      halted_geocoding_answer del: expected_outcome.simps)

lemma coordinates_never_return: "expected_outcome lk r ExplicitCoordinates \<noteq> Return"
  by (simp split: sum.splits)

lemma resolved_coordinates:
  "resolved_in ExplicitCoordinates lk task_id r w (expected_outcome lk r ExplicitCoordinates, w)"
  using coordinates_never_return [of lk r]
  by (simp add: resolved_in_def lookups_made_def halted_no_events del: expected_outcome.simps)

lemma spec_mode_cases:
  "spec_mode r =
     (if use_coordinates r then Some ExplicitCoordinates
      else if truthy (kecamatan r) then Some SubdistrictName
      else if use_delineation r \<and> truthy (kota r) \<and> truthy (negara r)
           then Some CityBoundaryDelineation
      else if truthy (negara r) \<and> \<not> truthy (kota r) then Some CountryOnly
      else if truthy (kota r) \<and> truthy (negara r) then Some CityCountryGeocoding
      else None)"
  by (cases "use_coordinates r"; cases "truthy (kecamatan r)"; cases "use_delineation r";
      cases "truthy (kota r)"; cases "truthy (negara r)")
    (simp_all add: spec_mode_def spec_rules_def)

lemma query_not_country: "k @ '', '' @ n \<noteq> n"
  using append_self_conv2 [of "k @ '', ''" n] by simp

lemma resolved_in_unique:
  "resolved_in m lk task_id r w out \<Longrightarrow> resolved_in m' lk task_id r w out \<Longrightarrow> m = m'"
  using query_not_country [of "fmt (kota r)" "fmt (negara r)"]
  by (cases m; cases m') (simp_all add: resolved_in_def del: expected_outcome.simps)

lemma validated_resolves_in_spec_mode:
  assumes ok: "validate lk r = None"
  shows "\<exists>m. spec_mode r = Some m \<and>
             resolved_in m lk task_id r w (resolve_location lk task_id r w)"
proof (cases "use_coordinates r")
  case True
  then show ?thesis
    by (simp add: spec_mode_cases resolve_coordinates resolved_coordinates
        del: expected_outcome.simps)
next
  case nc: False
  with ok have named: "truthy (kecamatan r) \<or> truthy (negara r)"
    by (auto simp: validate_def split: if_splits)
  show ?thesis
  proof (cases "truthy (kecamatan r)")
    case True
    with nc show ?thesis
      by (simp add: spec_mode_cases resolve_subdistrict resolved_boundary_answer)
  next
    case nk: False
    with named have country: "truthy (negara r)" by simp
    show ?thesis
    proof (cases "use_delineation r \<and> truthy (kota r) \<and> truthy (negara r)")
      case True
      with nc nk show ?thesis
        by (simp add: spec_mode_cases resolve_delineation resolved_boundary_answer)
    next
      case nd: False
      show ?thesis
      proof (cases "truthy (kota r)")
        case True
        with nc nk nd country
        have "resolve_location lk task_id r w =
          geocoding_answer lk task_id r
            (emit (LookupCall ''get_coordinates'' (fmt (kota r) @ '', '' @ fmt (negara r)))
              (publish task_id ''geocoding''
                (''Mencari koordinat untuk '' @ (fmt (kota r) @ '', '' @ fmt (negara r))) w))"
          by (intro resolve_geocoding) simp_all
        with nc nk nd country True show ?thesis
          by (simp add: spec_mode_cases resolved_geocoding_answer del: expected_outcome.simps)
      next
        case False
        with nc nk nd country
        have "resolve_location lk task_id r w =
          boundary_answer task_id
            (''Tidak dapat menemukan batas untuk '' @ fmt (negara r) @ ''.'')
            (fmt (negara r)) (fmt (negara r))
            (fetch_city_boundary lk (fmt (negara r)))
            (emit (LookupCall ''fetch_city_boundary'' (fmt (negara r)))
              (publish task_id ''fetching_boundary''
                (''Mengambil batas untuk '' @ fmt (negara r)) w))"
          by (intro resolve_country) simp_all
        with nc nk nd country False show ?thesis
          by (simp add: spec_mode_cases resolved_boundary_answer)
      qed
    qed
  qed
qed

text \<open>
  Claim C3. For every request that passes the validations of
  \<^verbatim>\<open>create_poster_async\<close>, the location is resolved in the first mode that
  the request satisfies, in the order explicit coordinates, subdistrict name,
  city-boundary delineation (city and country present), country only, city and
  country geocoding; it is resolved in no other mode. Resolving in a mode is
  calling the lookup of that mode with its argument and no other lookup (for
  explicit coordinates: none), ending as that mode ends on the answer (the
  converted point of the request, the boundary or the point that the lookup
  answers, an exception of the conversion or of the lookup, or the halt on an
  absent answer), and halting with an error status exactly in the last case.
\<close>

theorem C3_location_precedence:
  "validate lk r = None \<longrightarrow>
     (case spec_mode r of
        None \<Rightarrow> False
      | Some m \<Rightarrow>
          resolved_in m lk task_id r w (resolve_location lk task_id r w) \<and>
          (\<forall>m'. resolved_in m' lk task_id r w (resolve_location lk task_id r w) \<longrightarrow> m' = m))"
proof
  assume "validate lk r = None"
  then obtain m where m: "spec_mode r = Some m"
      "resolved_in m lk task_id r w (resolve_location lk task_id r w)"
    using validated_resolves_in_spec_mode by blast
  then show "case spec_mode r of
        None \<Rightarrow> False
      | Some m \<Rightarrow>
          resolved_in m lk task_id r w (resolve_location lk task_id r w) \<and>
          (\<forall>m'. resolved_in m' lk task_id r w (resolve_location lk task_id r w) \<longrightarrow> m' = m)"
    using resolved_in_unique by auto
qed

theorem C3_witness:
  "validate example_lookups ambiguous_request = None \<and>
   spec_mode ambiguous_request = Some ExplicitCoordinates \<and>
   resolved_in ExplicitCoordinates example_lookups ''job'' ambiguous_request job_world
     (resolve_location example_lookups ''job'' ambiguous_request job_world) \<and>
   fst (resolve_location example_lookups ''job'' ambiguous_request job_world)
     = Go \<lparr>loc_boundary = None, loc_coords = Some (''-6.2'', ''106.8''),
           location_name = ''Lokasi Kustom'', location_country = ''''\<rparr> \<and>
   validate example_lookups (ambiguous_request\<lparr>latitude := Some ''abc''\<rparr>) = None \<and>
   spec_mode (ambiguous_request\<lparr>latitude := Some ''abc''\<rparr>) = Some ExplicitCoordinates \<and>
   resolved_in ExplicitCoordinates example_lookups ''job''
     (ambiguous_request\<lparr>latitude := Some ''abc''\<rparr>) job_world
     (resolve_location example_lookups ''job'' (ambiguous_request\<lparr>latitude := Some ''abc''\<rparr>)
        job_world) \<and>
   fst (resolve_location example_lookups ''job'' (ambiguous_request\<lparr>latitude := Some ''abc''\<rparr>)
        job_world)
     = Raise (ValueError ''could not convert string to float: abc'') \<and>
   validate example_lookups (ambiguous_request\<lparr>use_coordinates := False\<rparr>) = None \<and>
   spec_mode (ambiguous_request\<lparr>use_coordinates := False\<rparr>) = Some SubdistrictName \<and>
   resolved_in SubdistrictName example_lookups ''job''
     (ambiguous_request\<lparr>use_coordinates := False\<rparr>) job_world
     (resolve_location example_lookups ''job'' (ambiguous_request\<lparr>use_coordinates := False\<rparr>)
        job_world) \<and>
   fst (resolve_location example_lookups ''job'' (ambiguous_request\<lparr>use_coordinates := False\<rparr>)
        job_world)
     = Go \<lparr>loc_boundary = Some [''POLYGON ((0 0, 1 0, 1 1, 0 0))''], loc_coords = None,
           location_name = ''Menteng, Jakarta Pusat, Indonesia'', location_country = ''''\<rparr> \<and>
   validate example_lookups city_request = None \<and>
   spec_mode city_request = Some CityCountryGeocoding \<and>
   resolved_in CityCountryGeocoding example_lookups ''job'' city_request job_world
     (resolve_location example_lookups ''job'' city_request job_world) \<and>
   fst (resolve_location example_lookups ''job'' city_request job_world)
     = Go \<lparr>loc_boundary = None, loc_coords = Some (''-6.2'', ''106.8''),
           location_name = ''Jakarta, Indonesia'', location_country = ''Indonesia''\<rparr>"
proof -
  have v1: "validate example_lookups ambiguous_request = None"
    by (simp add: validate_def example_lookups_def ambiguous_request_def city_request_def)
  have m1: "spec_mode ambiguous_request = Some ExplicitCoordinates"
    by (simp add: spec_mode_def spec_rules_def ambiguous_request_def city_request_def)
  have v2: "validate example_lookups (ambiguous_request\<lparr>use_coordinates := False\<rparr>) = None"
    by (simp add: validate_def example_lookups_def ambiguous_request_def city_request_def
        truthy_def)
  have m2: "spec_mode (ambiguous_request\<lparr>use_coordinates := False\<rparr>) = Some SubdistrictName"
    by (simp add: spec_mode_def spec_rules_def ambiguous_request_def city_request_def truthy_def)
  have v3: "validate example_lookups city_request = None"
    by (simp add: validate_def example_lookups_def city_request_def truthy_def)
  have m3: "spec_mode city_request = Some CityCountryGeocoding"
    by (simp add: spec_mode_def spec_rules_def city_request_def truthy_def)
  have v4: "validate example_lookups (ambiguous_request\<lparr>latitude := Some ''abc''\<rparr>) = None"
    by (simp add: validate_def example_lookups_def ambiguous_request_def city_request_def)
  have m4: "spec_mode (ambiguous_request\<lparr>latitude := Some ''abc''\<rparr>) = Some ExplicitCoordinates"
    by (simp add: spec_mode_def spec_rules_def ambiguous_request_def city_request_def)
  have r1: "resolved_in ExplicitCoordinates example_lookups ''job'' ambiguous_request job_world
     (resolve_location example_lookups ''job'' ambiguous_request job_world)"
    using v1 m1
      C3_location_precedence [of example_lookups ambiguous_request "''job''" job_world]
    by simp
  have r2: "resolved_in SubdistrictName example_lookups ''job''
     (ambiguous_request\<lparr>use_coordinates := False\<rparr>) job_world
     (resolve_location example_lookups ''job'' (ambiguous_request\<lparr>use_coordinates := False\<rparr>)
        job_world)"
    using v2 m2
      C3_location_precedence [of example_lookups "ambiguous_request\<lparr>use_coordinates := False\<rparr>"
        "''job''" job_world]
    by simp
  have r3: "resolved_in CityCountryGeocoding example_lookups ''job'' city_request job_world
     (resolve_location example_lookups ''job'' city_request job_world)"
    using v3 m3
      C3_location_precedence [of example_lookups city_request "''job''" job_world]
    by simp
  have r4: "resolved_in ExplicitCoordinates example_lookups ''job''
     (ambiguous_request\<lparr>latitude := Some ''abc''\<rparr>) job_world
     (resolve_location example_lookups ''job'' (ambiguous_request\<lparr>latitude := Some ''abc''\<rparr>)
        job_world)"
    using v4 m4
      C3_location_precedence [of example_lookups "ambiguous_request\<lparr>latitude := Some ''abc''\<rparr>"
        "''job''" job_world]
    by simp
  from r1 have o1: "fst (resolve_location example_lookups ''job'' ambiguous_request job_world)
     = Go \<lparr>loc_boundary = None, loc_coords = Some (''-6.2'', ''106.8''),
           location_name = ''Lokasi Kustom'', location_country = ''''\<rparr>"
    by (simp add: resolved_in_def to_float_def example_lookups_def ambiguous_request_def
        city_request_def or_else_def)
  from r4 have o4:
    "fst (resolve_location example_lookups ''job'' (ambiguous_request\<lparr>latitude := Some ''abc''\<rparr>)
        job_world)
     = Raise (ValueError ''could not convert string to float: abc'')"
    by (simp add: resolved_in_def to_float_def example_lookups_def ambiguous_request_def
        city_request_def or_else_def)
  from r2 have o2:
    "fst (resolve_location example_lookups ''job'' (ambiguous_request\<lparr>use_coordinates := False\<rparr>)
        job_world)
     = Go \<lparr>loc_boundary = Some [''POLYGON ((0 0, 1 0, 1 1, 0 0))''], loc_coords = None,
           location_name = ''Menteng, Jakarta Pusat, Indonesia'', location_country = ''''\<rparr>"
    by (simp add: resolved_in_def boundary_outcome_def example_lookups_def ambiguous_request_def
        city_request_def fmt_def)
  from r3 have o3: "fst (resolve_location example_lookups ''job'' city_request job_world)
     = Go \<lparr>loc_boundary = None, loc_coords = Some (''-6.2'', ''106.8''),
           location_name = ''Jakarta, Indonesia'', location_country = ''Indonesia''\<rparr>"
    by (simp add: resolved_in_def example_lookups_def city_request_def fmt_def)
  from v1 m1 r1 o1 v4 m4 r4 o4 v2 m2 r2 o2 v3 m3 r3 o3 show ?thesis
    by (intro conjI)
qed

subsection \<open>Evaluating a job\<close>

lemmas registry_defs =
  status_update_def update_progress_def dict_update_def no_fields_def pick_def is_cancelled_def
  api_cancel_def

lemmas job_defs =
  create_poster_async_def prepare_job_def validate_def resolve_location_def render_job_def
  create_poster_def poster_graph_def poster_features_def fetch_boundary_of_def report_def
  render_stages_def job_report_def job_cache_cb_def place_of_def theme_list_of_def publish_def
  truthy_def fmt_def or_else_def quoted_def water_tags_def parks_tags_def

text \<open>
  Claim C5. A job that ends because the user cancelled is meant to end in the
  status with the message \<^verbatim>\<open>Dibatalkan oleh pengguna\<close>. A city job whose
  client cancels while the location is being resolved: at every progress
  report of \<^verbatim>\<open>create_poster\<close> the callback raises \<^verbatim>\<open>RuntimeError("cancelled")\<close>,
  the wrapper \<^verbatim>\<open>report\<close> of \<^verbatim>\<open>create_poster\<close> swallows it, the poster is fetched
  and drawn, and the job ends \<^verbatim>\<open>completed\<close>; the message of cancellation is
  never published, although the handler would publish it for an exception
  whose text is \<^verbatim>\<open>cancelled\<close>. At the checkpoint of the fetchers of
  \<^verbatim>\<open>fetch_map_data_parallel\<close> a cancelled job makes the round raise
  \<^verbatim>\<open>ValueError\<close>, for which the handler's message is the generic one.
\<close>

theorem C5_cancellation_is_swallowed:
  "(case sink (create_poster_async example_env example_lookups cancel_job ''job'' city_request
        job_world) ''job'' of
      None \<Rightarrow> False
    | Some st \<Rightarrow>
        st_status st = Some ''completed'' \<and> st_message st = Some ''Poster berhasil dibuat!'' \<and>
        st_cancelled st = Some True) \<and>
   Published ''error'' cancelled_message \<notin> set (trace
     (create_poster_async example_env example_lookups cancel_job ''job'' city_request job_world)) \<and>
   inner_message (RuntimeError ''cancelled'') = cancelled_message \<and>
   main (fetch_map_data_parallel example_env example_args in_order cancelled_registry Map.empty)
     = Finished (Inl (ValueError ''Failed to fetch street network data'')) \<and>
   inner_message (ValueError ''Failed to fetch street network data'')
     = ''Error saat membuat poster: Failed to fetch street network data''"
proof -
  have completed: "(case sink (create_poster_async example_env example_lookups cancel_job ''job''
        city_request job_world) ''job'' of
      None \<Rightarrow> False
    | Some st \<Rightarrow>
        st_status st = Some ''completed'' \<and> st_message st = Some ''Poster berhasil dibuat!'' \<and>
        st_cancelled st = Some True)"
    by (simp add: job_defs registry_defs fetch_defs cancel_job_def example_env_def
        example_lookups_def city_request_def job_world_def Let_def)
  have quiet: "Published ''error'' cancelled_message \<notin> set (trace
     (create_poster_async example_env example_lookups cancel_job ''job'' city_request job_world))"
    by (simp add: job_defs registry_defs fetch_defs cancel_job_def example_env_def
        example_lookups_def city_request_def job_world_def Let_def cancelled_message_def)
  have handler: "inner_message (RuntimeError ''cancelled'') = cancelled_message"
    by (simp add: inner_message_def)
  have round_fails: "main (fetch_map_data_parallel example_env example_args in_order
      cancelled_registry Map.empty)
     = Finished (Inl (ValueError ''Failed to fetch street network data''))"
    by (simp add: round_defs cancelled_registry_def example_args_def in_order_def Let_def emit_def)
  have generic: "inner_message (ValueError ''Failed to fetch street network data'')
     = ''Error saat membuat poster: Failed to fetch street network data''"
    by (simp add: inner_message_def)
  from completed quiet handler round_fails generic show ?thesis by blast
qed

section \<open>Properties of the cache keys\<close>

lemma digit_char_inj:
  assumes "d < 10" "d' < 10" "digit_char d = digit_char d'"
  shows "d = d'"
proof -
  have cases: "x < 10 \<Longrightarrow> x = 0 \<or> x = 1 \<or> x = 2 \<or> x = 3 \<or> x = 4 \<or> x = 5 \<or> x = 6 \<or> x = 7
      \<or> x = 8 \<or> x = 9" for x :: nat
    by arith
  from cases [OF assms(1)] cases [OF assms(2)] assms(3) show ?thesis
    by (elim disjE) (simp_all add: digit_char_def)
qed

lemma digit_char_not_minus: "d < 10 \<Longrightarrow> digit_char d \<noteq> CHR ''-''"
proof -
  assume "d < 10"
  then have "d = 0 \<or> d = 1 \<or> d = 2 \<or> d = 3 \<or> d = 4 \<or> d = 5 \<or> d = 6 \<or> d = 7
      \<or> d = 8 \<or> d = 9"
    by arith
  then show ?thesis
    by (elim disjE) (simp_all add: digit_char_def)
qed

lemma str_nat_not_Nil: "str_nat n \<noteq> []"
  by (subst str_nat.simps) simp

lemma str_nat_no_minus: "CHR ''-'' \<notin> set (str_nat n)"
proof (induction n rule: str_nat.induct)
  case (1 n)
  show ?case
  proof (cases "n < 10")
    case True
    then show ?thesis
      using digit_char_not_minus [of n] by (subst str_nat.simps) auto
  next
    case False
    then have "n mod 10 < 10" by simp
    with False 1 show ?thesis
      using digit_char_not_minus [of "n mod 10"] by (subst str_nat.simps) auto
  qed
qed

lemma str_nat_inj: "str_nat m = str_nat n \<Longrightarrow> m = n"
proof (induction m arbitrary: n rule: str_nat.induct)
  case (1 m)
  show ?case
  proof (cases "m < 10")
    case small: True
    show ?thesis
    proof (cases "n < 10")
      case True
      with small 1(2) show ?thesis
        using digit_char_inj [of m n]
        by (simp add: str_nat.simps [of m] str_nat.simps [of n])
    next
      case False
      with small 1(2) str_nat_not_Nil [of "n div 10"] show ?thesis
        by (simp add: str_nat.simps [of m] str_nat.simps [of n] Cons_eq_append_conv)
    qed
  next
    case big: False
    show ?thesis
    proof (cases "n < 10")
      case True
      with big 1(2) str_nat_not_Nil [of "m div 10"] show ?thesis
        by (simp add: str_nat.simps [of m] str_nat.simps [of n] append_eq_Cons_conv)
    next
      case False
      with big 1(2) have eq: "str_nat (m div 10) = str_nat (n div 10)"
          "digit_char (m mod 10) = digit_char (n mod 10)"
        by (simp_all add: str_nat.simps [of m] str_nat.simps [of n])
      from 1(1) [OF big eq(1)] have "m div 10 = n div 10" .
      moreover from eq(2) have "m mod 10 = n mod 10"
        using digit_char_inj [of "m mod 10" "n mod 10"] by simp
      ultimately show ?thesis
        by (metis div_mult_mod_eq)
    qed
  qed
qed

lemma str_int_inj: "str_int i = str_int j \<Longrightarrow> i = j"
proof -
  assume eq: "str_int i = str_int j"
  have hd_minus: "str_nat n \<noteq> CHR ''-'' # xs" for n xs
    using str_nat_no_minus [of n] by (metis list.set_intros(1))
  show ?thesis
  proof (cases "i < 0")
    case neg: True
    show ?thesis
    proof (cases "j < 0")
      case True
      with neg eq have "nat (- i) = nat (- j)"
        by (simp add: str_int_def str_nat_inj)
      with True neg show ?thesis by simp
    next
      case False
      with neg eq hd_minus [of "nat j" "str_nat (nat (- i))"] show ?thesis
        by (simp add: str_int_def)
    qed
  next
    case pos: False
    show ?thesis
    proof (cases "j < 0")
      case True
      with pos eq hd_minus [of "nat i" "str_nat (nat (- j))"] show ?thesis
        by (simp add: str_int_def)
    next
      case False
      with pos eq have "nat i = nat j"
        by (simp add: str_int_def str_nat_inj)
      with False pos show ?thesis by simp
    qed
  qed
qed

lemma graph_polygon_key_same_iff:
  "OSM_NETWORK_TYPE env = OSM_NETWORK_TYPE env' \<Longrightarrow>
   graph_polygon_key env geom = graph_polygon_key env' geom \<longleftrightarrow>
   py_hash env geom = py_hash env' geom"
  by (auto simp: graph_polygon_key_def dest: str_int_inj)

lemma features_polygon_key_same_iff:
  "features_polygon_key env name geom tgs = features_polygon_key env' name geom tgs \<longleftrightarrow>
   py_hash env geom = py_hash env' geom"
  by (auto simp: features_polygon_key_def dest: str_int_inj)

lemma point_keys_same_in_every_process:
  "OSM_NETWORK_TYPE env = OSM_NETWORK_TYPE env' \<Longrightarrow>
   graph_key env pt dist = graph_key env' pt dist"
  by (simp add: graph_key_def)

lemmas siphash_defs =
  str_hash_def py_ssize_def siphash13_def absorb.simps absorb_word_def single_round_def
  half_round_def rotl64_def u64_def

lemma hash_seed_0: "str_hash secret_seed_0 unit_triangle = - 4107433404724725677"
  by (simp add: siphash_defs secret_seed_0_def unit_triangle_def)

lemma hash_seed_1: "str_hash secret_seed_1 unit_triangle = 5982192472769586759"
  by (simp add: siphash_defs secret_seed_1_def unit_triangle_def)

text \<open>
  Claim C1. The cache key of a query is meant to be the same in every
  process. The key of the two polygon fetchers contains \<^verbatim>\<open>hash(str(geometry))\<close>,
  which depends on the secret of the process: for the same polygon and network
  type, a process started with \<^verbatim>\<open>PYTHONHASHSEED=0\<close> and one started with
  \<^verbatim>\<open>PYTHONHASHSEED=1\<close> compute different keys, for the graph and for the
  features. And two feature queries that differ in the value of a tag only
  compute the same key.
\<close>

theorem C1_polygon_key_changes_between_processes:
  "graph_polygon_key (process_env secret_seed_0) unit_triangle
     = ''graph_polygon_-4107433404724725677_drive'' \<and>
   graph_polygon_key (process_env secret_seed_1) unit_triangle
     = ''graph_polygon_5982192472769586759_drive'' \<and>
   features_polygon_key (process_env secret_seed_0) ''water'' unit_triangle water_tags
     = ''water_polygon_-4107433404724725677_natural_waterway'' \<and>
   features_polygon_key (process_env secret_seed_1) ''water'' unit_triangle water_tags
     = ''water_polygon_5982192472769586759_natural_waterway'' \<and>
   features_key ''water'' (''-6.2'', ''106.8'') 5000 [(''natural'', ''water'')]
     = features_key ''water'' (''-6.2'', ''106.8'') 5000 [(''natural'', ''wood'')]"
  by (simp add: graph_polygon_key_def features_polygon_key_def features_key_def process_env_def
      example_env_def hash_seed_0 hash_seed_1 water_tags_def str_int_def str_nat.simps
      digit_char_def)

end
